theory Spec2Isabelle
  imports Complex_Main "HOL-Library.Sublist"
begin

section \<open>Python strings\<close>

text \<open>
  Texts are ASCII strings. \<open>str.lower\<close> maps \<open>A\<close>..\<open>Z\<close> to \<open>a\<close>..\<open>z\<close> and leaves every
  other character alone; \<open>x in s\<close> on strings is the contiguous-sublist test
  \<^const>\<open>sublist\<close>; \<open>s.startswith(p)\<close> is \<^const>\<open>prefix\<close>.
\<close>

definition upper_letters :: string where
  "upper_letters = ''ABCDEFGHIJKLMNOPQRSTUVWXYZ''"

definition lower_letters :: string where
  "lower_letters = ''abcdefghijklmnopqrstuvwxyz''"

definition lower_char :: "char \<Rightarrow> char" where
  "lower_char c = (case map_of (zip upper_letters lower_letters) c of Some l \<Rightarrow> l | None \<Rightarrow> c)"

definition lower :: "string \<Rightarrow> string" where
  "lower s = map lower_char s"

text \<open>\<open>any(w in text for w in ws)\<close> and \<open>sum(1 for w in ws if w in text)\<close>.\<close>

definition any_in :: "string list \<Rightarrow> string \<Rightarrow> bool" where
  "any_in ws text = list_ex (\<lambda>w. sublist w text) ws"

definition count_in :: "string list \<Rightarrow> string \<Rightarrow> nat" where
  "count_in ws text = length (filter (\<lambda>w. sublist w text) ws)"

text \<open>
  \<open>str.isspace\<close> on one ASCII character: tab, line feed, vertical tab, form feed,
  carriage return, the four separators \<open>0x1c\<close>..\<open>0x1f\<close> and the space.
\<close>

definition is_space :: "char \<Rightarrow> bool" where
  "is_space c = (c \<in> set [CHR 0x09, CHR 0x0A, CHR 0x0B, CHR 0x0C, CHR 0x0D,
                           CHR 0x1C, CHR 0x1D, CHR 0x1E, CHR 0x1F, CHR 0x20])"

text \<open>\<open>s.split()\<close>: the maximal runs of non-whitespace characters, in order.\<close>

fun split_acc :: "string \<Rightarrow> string \<Rightarrow> string list" where
  "split_acc cur [] = (if cur = [] then [] else [cur])"
| "split_acc cur (c # cs) =
     (if is_space c then (if cur = [] then split_acc [] cs else cur # split_acc [] cs)
      else split_acc (cur @ [c]) cs)"

definition split :: "string \<Rightarrow> string list" where
  "split s = split_acc [] s"

section \<open>The regular expressions of the crisis detector\<close>

text \<open>
  The eight patterns of \<open>_detect_crisis\<close> are sequences of: a word boundary \<open>\b\<close>, a
  literal, a group of alternative literals \<open>(a|b|c)\<close>, \<open>\s+\<close>, an optional character
  \<open>c?\<close> and the class \<open>[\s-]\<close>. \<open>re.search\<close> asks whether the pattern matches at some
  position; the previous character is carried along for \<open>\b\<close>.
\<close>

datatype atom = WordB | Lit string | Alt "string list" | Spaces | Opt char | SpaceOrDash

definition is_word :: "char \<Rightarrow> bool" where
  "is_word c = (c \<in> set (upper_letters @ lower_letters @ ''0123456789_''))"

definition word_before :: "char option \<Rightarrow> bool" where
  "word_before prev = (case prev of None \<Rightarrow> False | Some c \<Rightarrow> is_word c)"

definition word_after :: "string \<Rightarrow> bool" where
  "word_after s = (case s of [] \<Rightarrow> False | c # _ \<Rightarrow> is_word c)"

definition advance :: "char option \<Rightarrow> string \<Rightarrow> char option" where
  "advance prev l = (if l = [] then prev else Some (last l))"

fun rx_match :: "atom list \<Rightarrow> char option \<Rightarrow> string \<Rightarrow> bool" where
  "rx_match [] prev s = True"
| "rx_match (WordB # r) prev s = (word_before prev \<noteq> word_after s \<and> rx_match r prev s)"
| "rx_match (Lit l # r) prev s =
     (prefix l s \<and> rx_match r (advance prev l) (drop (length l) s))"
| "rx_match (Alt ls # r) prev s =
     list_ex (\<lambda>l. prefix l s \<and> rx_match r (advance prev l) (drop (length l) s)) ls"
| "rx_match (Spaces # r) prev [] = False"
| "rx_match (Spaces # r) prev (c # s) =
     (is_space c \<and> (rx_match (Spaces # r) (Some c) s \<or> rx_match r (Some c) s))"
| "rx_match (Opt x # r) prev s =
     ((case s of [] \<Rightarrow> False | c # s' \<Rightarrow> c = x \<and> rx_match r (Some c) s') \<or> rx_match r prev s)"
| "rx_match (SpaceOrDash # r) prev [] = False"
| "rx_match (SpaceOrDash # r) prev (c # s) =
     ((is_space c \<or> c = CHR ''-'') \<and> rx_match r (Some c) s)"

fun rx_search :: "atom list \<Rightarrow> char option \<Rightarrow> string \<Rightarrow> bool" where
  "rx_search p prev [] = rx_match p prev []"
| "rx_search p prev (c # s) = (rx_match p prev (c # s) \<or> rx_search p (Some c) s)"

definition re_search :: "atom list \<Rightarrow> string \<Rightarrow> bool" where
  "re_search p text = rx_search p None text"

definition suicide_patterns :: "atom list list" where
  "suicide_patterns =
    [[WordB, Alt [''kill'', ''end'', ''take''], Spaces, Alt [''my'', ''own''], Spaces,
      Lit ''life'', WordB],
     [WordB, Alt [''commit'', ''committing''], Spaces, Lit ''suicide'', WordB],
     [WordB, Lit ''suicid'', Alt [''e'', ''al''], WordB],
     [WordB, Lit ''want'', Spaces, Lit ''to'', Spaces, Lit ''die'', WordB],
     [WordB, Lit ''don'', Opt (CHR 0x27), Lit ''t'', Spaces, Lit ''want'', Spaces, Lit ''to'',
      Spaces, Lit ''live'', WordB]]"

definition self_harm_patterns :: "atom list list" where
  "self_harm_patterns =
    [[WordB, Alt [''cut'', ''cutting'', ''hurt'', ''harm''], Spaces, Alt [''myself'', ''my''],
      WordB],
     [WordB, Lit ''self'', SpaceOrDash, Lit ''harm'', WordB],
     [WordB, Alt [''cutting'', ''burning'', ''hitting''], Spaces, Lit ''myself'', WordB]]"

section \<open>Calls across component boundaries\<close>

text \<open>
  Every function that the claims count calls of takes the log of calls made so far and
  returns it extended: a call of the gate's two checks, of the toxicity classifier, of the
  generation capability (prompt, context, token limit), of the retriever, and of the
  single-turn pipeline (user input, \<open>return_details\<close>).
\<close>

datatype event =
    Ev_check_input string
  | Ev_check_output string
  | Ev_toxicity string
  | Ev_generate string "string list option" "nat option"
  | Ev_retrieve string
  | Ev_generate_response string bool

type_synonym log = "event list"

section \<open>safety/safety\_filter.py\<close>

text \<open>
  The \<open>details\<close> dictionary of the gate has four possible keys; a key that is absent is
  \<open>None\<close>. \<open>crisis_type\<close> may be present with the value \<open>None\<close>.
\<close>

record details =
  crisis_detected :: "bool option"
  crisis_type :: "string option option"
  toxicity_score :: "real option"
  medical_advice_flag :: "string option"

definition empty_details :: details where
  "empty_details = \<lparr>crisis_detected = None, crisis_type = None, toxicity_score = None,
                     medical_advice_flag = None\<rparr>"

text \<open>\<open>{**a, **b}\<close>: the keys of \<open>b\<close> override those of \<open>a\<close>.\<close>

definition override :: "'a option \<Rightarrow> 'a option \<Rightarrow> 'a option" where
  "override a b = (case b of None \<Rightarrow> a | Some v \<Rightarrow> Some v)"

definition merge_details :: "details \<Rightarrow> details \<Rightarrow> details" where
  "merge_details a b =
     \<lparr>crisis_detected = override (crisis_detected a) (crisis_detected b),
      crisis_type = override (crisis_type a) (crisis_type b),
      toxicity_score = override (toxicity_score a) (toxicity_score b),
      medical_advice_flag = override (medical_advice_flag a) (medical_advice_flag b)\<rparr>"

text \<open>
  The filter after \<open>__init__\<close>. The toxicity classifier is an external library: when it
  is loaded, \<open>predict\<close> returns the scores of its categories or raises (\<open>None\<close>).
\<close>

record SafetyFilter =
  sf_enabled :: bool
  toxicity_threshold :: real
  crisis_keywords :: "string list"
  emergency_response :: string
  block_harmful :: bool
  crisis_detection :: bool
  toxicity_model :: "(string \<Rightarrow> real list option) option"

definition detect_crisis :: "SafetyFilter \<Rightarrow> string \<Rightarrow> bool \<times> string option" where
  "detect_crisis sf text =
     (let text_lower = lower text in
      if list_ex (\<lambda>pattern. re_search pattern text_lower) suicide_patterns
        then (True, Some ''suicide_risk'')
      else if list_ex (\<lambda>pattern. re_search pattern text_lower) self_harm_patterns
        then (True, Some ''self_harm_risk'')
      else if list_ex (\<lambda>keyword. sublist (lower keyword) text_lower) (crisis_keywords sf)
        then (True, Some ''crisis_keyword_match'')
      else (False, None))"

text \<open>\<open>max(results.values())\<close> raises on no values; the \<open>except\<close> turns every raise into 0.\<close>

definition check_toxicity :: "SafetyFilter \<Rightarrow> string \<Rightarrow> log \<Rightarrow> real \<times> log" where
  "check_toxicity sf text lg =
     (case toxicity_model sf of
        None \<Rightarrow> (0, lg)
      | Some predict \<Rightarrow>
          (case predict text of
             None \<Rightarrow> (0, lg @ [Ev_toxicity text])
           | Some [] \<Rightarrow> (0, lg @ [Ev_toxicity text])
           | Some (v # vs) \<Rightarrow> (fold max vs v, lg @ [Ev_toxicity text])))"

definition toxic_input_message :: string where
  "toxic_input_message =
     ''I'm here to provide support in a respectful way. Let's keep our conversation constructive.''"

definition toxic_output_message :: string where
  "toxic_output_message =
     ''I apologize, but I need to rephrase my response. How can I better support you?''"

definition check_input ::
  "SafetyFilter \<Rightarrow> string \<Rightarrow> log \<Rightarrow> (bool \<times> string option \<times> details) \<times> log" where
  "check_input sf text lg0 =
     (let lg = lg0 @ [Ev_check_input text] in
      if \<not> sf_enabled sf then ((True, None, empty_details), lg)
      else
        let (is_crisis, details1) =
              (if crisis_detection sf
               then (let (is_crisis, ctype) = detect_crisis sf text
                     in (is_crisis, empty_details\<lparr>crisis_detected := Some is_crisis,
                                                 crisis_type := Some ctype\<rparr>))
               else (False, empty_details))
        in if is_crisis then ((False, Some (emergency_response sf), details1), lg)
           else if toxicity_model sf \<noteq> None then
             (let (toxicity, lg') = check_toxicity sf text lg;
                  details2 = details1\<lparr>toxicity_score := Some toxicity\<rparr>
              in if toxicity > toxicity_threshold sf
                 then ((False, Some toxic_input_message, details2), lg')
                 else ((True, None, details2), lg'))
           else ((True, None, details1), lg))"

definition medical_red_flags :: "string list" where
  "medical_red_flags = [''diagnose'', ''diagnosis'', ''you have'', ''you are'',
                        ''prescribe'', ''medication dosage'', ''stop taking'']"

definition check_output ::
  "SafetyFilter \<Rightarrow> string \<Rightarrow> log \<Rightarrow> (bool \<times> string option \<times> details) \<times> log" where
  "check_output sf text lg0 =
     (let lg = lg0 @ [Ev_check_output text] in
      if \<not> sf_enabled sf then ((True, None, empty_details), lg)
      else
        let text_lower = lower text;
            details1 = fold (\<lambda>flag d. if sublist flag text_lower
                                       then d\<lparr>medical_advice_flag := Some flag\<rparr> else d)
                            medical_red_flags empty_details
        in if toxicity_model sf \<noteq> None then
             (let (toxicity, lg') = check_toxicity sf text lg;
                  details2 = details1\<lparr>toxicity_score := Some toxicity\<rparr>
              in if toxicity > toxicity_threshold sf
                 then ((False, Some toxic_output_message, details2), lg')
                 else ((True, None, details2), lg'))
           else ((True, None, details1), lg))"

definition advice_indicators :: "string list" where
  "advice_indicators = [''should'', ''must'', ''need to'', ''have to'', ''recommend'']"

definition safety_prefix :: string where
  "safety_prefix = ''Please note: I'm an AI assistant, not a licensed therapist. ''"

definition add_safety_prefix :: "string \<Rightarrow> string" where
  "add_safety_prefix response =
     (if any_in advice_indicators (lower response)
      then (if \<not> prefix safety_prefix response then safety_prefix @ response else response)
      else response)"

section \<open>agentic/reasoning\_agent.py\<close>

text \<open>
  The generation capability is external: a function of the prompt, the retrieved context
  and the token limit (\<open>None\<close> when the caller leaves the default). Calling it is logged.
\<close>

type_synonym llm = "string \<Rightarrow> string list option \<Rightarrow> nat option \<Rightarrow> string"

definition generate_call ::
  "llm \<Rightarrow> string \<Rightarrow> string list option \<Rightarrow> nat option \<Rightarrow> log \<Rightarrow> string \<times> log" where
  "generate_call m prompt context max_new_tokens lg =
     (m prompt context max_new_tokens, lg @ [Ev_generate prompt context max_new_tokens])"

record ReasoningAgent =
  agentic_enabled :: bool
  model :: "llm option"
  max_reasoning_steps :: nat
  reflection_enabled :: bool
  self_critique_enabled :: bool
  chain_of_thought :: bool

record reasoning_step =
  step :: string
  content :: string

record reasoning_result =
  steps :: "reasoning_step list"
  final_response :: string
  reasoning_used :: bool

text \<open>The four prompts (the f-strings of the source, each a local variable there).\<close>

definition analysis_prompt :: "string \<Rightarrow> string" where
  "analysis_prompt query =
     ''Analyze this therapeutic situation step by step:\<newline>\<newline>User's message: ''
     @ query
     @ ''\<newline>\<newline>Consider:\<newline>1. What emotions might the person be experiencing?\<newline>''
     @ ''2. What are the underlying concerns or needs?\<newline>''
     @ ''3. Are there any crisis indicators?\<newline>''
     @ ''4. What would be most helpful right now?\<newline>\<newline>Provide a brief analysis:''"

definition enhanced_prompt :: "string \<Rightarrow> string \<Rightarrow> string" where
  "enhanced_prompt query needs =
     ''User's message: '' @ query
     @ ''\<newline>\<newline>Therapeutic needs identified: '' @ needs
     @ ''\<newline>\<newline>Provide a compassionate, empathetic response that addresses these needs.''"

definition critique_prompt :: "string \<Rightarrow> string \<Rightarrow> string" where
  "critique_prompt response needs =
     ''Evaluate this therapeutic response:\<newline>\<newline>Response: '' @ response
     @ ''\<newline>\<newline>Needs to address: '' @ needs
     @ ''\<newline>\<newline>Critique checklist:\<newline>- Is it empathetic and validating?\<newline>''
     @ ''- Does it address the identified needs?\<newline>''
     @ ''- Is it safe and appropriate?\<newline>''
     @ ''- Is it actionable if needed?\<newline>''
     @ ''- Does it maintain boundaries?\<newline>\<newline>Provide brief critique:''"

definition refinement_prompt :: "string \<Rightarrow> string \<Rightarrow> string \<Rightarrow> string" where
  "refinement_prompt initial critique needs =
     ''Original response: '' @ initial
     @ ''\<newline>\<newline>Critique: '' @ critique
     @ ''\<newline>\<newline>Needs: '' @ needs
     @ ''\<newline>\<newline>Provide an improved response that addresses the critique:''"

definition analyze_situation ::
  "ReasoningAgent \<Rightarrow> string \<Rightarrow> string list option \<Rightarrow> log \<Rightarrow> string \<times> log" where
  "analyze_situation ag query context lg =
     (case model ag of
        Some m \<Rightarrow> generate_call m (analysis_prompt query) context (Some 200) lg
      | None \<Rightarrow> (''Unable to analyze - model not available'', lg))"

text \<open>\<open>", ".join(needs)\<close>.\<close>

fun join :: "string \<Rightarrow> string list \<Rightarrow> string" where
  "join sep [] = []"
| "join sep [x] = x"
| "join sep (x # y # ys) = x @ sep @ join sep (y # ys)"

definition emotion_words :: "string list" where
  "emotion_words = [''sad'', ''angry'', ''anxious'', ''worried'', ''scared'', ''frustrated'',
                    ''hopeless'']"

definition crisis_indicators :: "string list" where
  "crisis_indicators = [''suicide'', ''kill'', ''harm'', ''hurt myself'', ''end it'']"

definition assess_therapeutic_needs :: "string \<Rightarrow> string" where
  "assess_therapeutic_needs query =
     (let query_lower = lower query;
          needs0 = [];
          needs1 = (if any_in emotion_words query_lower
                    then needs0 @ [''emotional_validation''] else needs0);
          needs2 = (if sublist ''?'' query
                       \<or> any_in [''how'', ''what'', ''why'', ''when'', ''where''] query_lower
                    then needs1 @ [''information''] else needs1);
          needs3 = (if any_in [''help'', ''cope'', ''manage'', ''deal with''] query_lower
                    then needs2 @ [''coping_strategies''] else needs2);
          needs4 = (if any_in crisis_indicators query_lower
                    then needs3 @ [''crisis_support''] else needs3);
          needs5 = (if length needs4 = 0 \<or> any_in [''feel'', ''feeling'', ''felt''] query_lower
                    then needs4 @ [''empathy_and_support''] else needs4)
      in if needs5 \<noteq> [] then join '', '' needs5 else ''general_support'')"

definition generate_therapeutic_response ::
  "ReasoningAgent \<Rightarrow> string \<Rightarrow> string list option \<Rightarrow> string \<Rightarrow> log \<Rightarrow> string \<times> log" where
  "generate_therapeutic_response ag query context needs lg =
     (case model ag of
        Some m \<Rightarrow> generate_call m (enhanced_prompt query needs) context None lg
      | None \<Rightarrow> (''I'm here to support you.'', lg))"

definition self_critique :: "ReasoningAgent \<Rightarrow> string \<Rightarrow> string \<Rightarrow> log \<Rightarrow> string \<times> log" where
  "self_critique ag response needs lg =
     (case model ag of
        Some m \<Rightarrow> generate_call m (critique_prompt response needs) None (Some 150) lg
      | None \<Rightarrow> (''Response appears appropriate.'', lg))"

definition refine_response ::
  "ReasoningAgent \<Rightarrow> string \<Rightarrow> string \<Rightarrow> string \<Rightarrow> log \<Rightarrow> string \<times> log" where
  "refine_response ag initial critique needs lg =
     (case model ag of
        Some m \<Rightarrow> generate_call m (refinement_prompt initial critique needs) None (Some 300) lg
      | None \<Rightarrow> (initial, lg))"

definition reflect_on_response :: "string \<Rightarrow> string \<Rightarrow> string" where
  "reflect_on_response response original_query =
     (let reflection0 = [];
          reflection1 = (if any_in [''understand'', ''hear'', ''feel'', ''valid'', ''makes sense'']
                               (lower response)
                         then reflection0 @ [''Response shows empathy''] else reflection0);
          reflection2 = (if any_in [''try'', ''consider'', ''might'', ''could'', ''suggest'']
                               (lower response)
                         then reflection1 @ [''Provides actionable suggestions'']
                         else reflection1);
          reflection3 = (if 50 < length (split response) \<and> length (split response) < 200
                         then reflection2 @ [''Appropriate length'']
                         else if length (split response) \<le> 50
                         then reflection2 @ [''May be too brief'']
                         else reflection2 @ [''May be too lengthy''])
      in if reflection3 \<noteq> [] then join ''; '' reflection3 else ''Response generated'')"

text \<open>
  \<open>reason\<close>. The successive values of \<open>reasoning_steps\<close> are \<open>steps1\<close>..\<open>steps5\<close>, those
  of the log \<open>lg1\<close>..\<open>lg3\<close>.
\<close>

definition reason ::
  "ReasoningAgent \<Rightarrow> string \<Rightarrow> string list option \<Rightarrow> log \<Rightarrow> reasoning_result \<times> log" where
  "reason ag query context lg =
     (if \<not> agentic_enabled ag then
        (case model ag of
           Some m \<Rightarrow>
             (let (response, lg') = generate_call m query context None lg
              in (\<lparr>steps = [], final_response = response, reasoning_used = False\<rparr>, lg'))
         | None \<Rightarrow> (\<lparr>steps = [], final_response = [], reasoning_used = False\<rparr>, lg))
      else
        let current_query = query;
            (steps1, lg1) =
              (if chain_of_thought ag
               then (let (analysis, lg') = analyze_situation ag current_query context lg
                     in ([\<lparr>step = ''situation_analysis'', content = analysis\<rparr>], lg'))
               else ([], lg));
            needs_assessment = assess_therapeutic_needs current_query;
            steps2 = steps1 @ [\<lparr>step = ''needs_assessment'', content = needs_assessment\<rparr>];
            (initial_response, lg2) =
              generate_therapeutic_response ag current_query context needs_assessment lg1;
            steps3 = steps2 @ [\<lparr>step = ''initial_response'', content = initial_response\<rparr>];
            (final, steps4, lg3) =
              (if self_critique_enabled ag then
                 (let (critique, lg') = self_critique ag initial_response needs_assessment lg2;
                      steps' = steps3 @ [\<lparr>step = ''self_critique'', content = critique\<rparr>]
                  in if sublist ''needs improvement'' (lower critique)
                        \<or> sublist ''consider'' (lower critique)
                     then (let (refined_response, lg'') =
                                 refine_response ag initial_response critique needs_assessment lg'
                           in (refined_response,
                               steps' @ [\<lparr>step = ''refined_response'',
                                          content = refined_response\<rparr>],
                               lg''))
                     else (initial_response, steps', lg'))
               else (initial_response, steps3, lg2));
            steps5 = (if reflection_enabled ag
                      then steps4 @ [\<lparr>step = ''reflection'',
                                       content = reflect_on_response final query\<rparr>]
                      else steps4)
        in (\<lparr>steps = steps5, final_response = final, reasoning_used = True\<rparr>, lg3))"

section \<open>evaluation/cotherf.py\<close>

text \<open>
  Scores are Python floats; they are modelled by real numbers. Every sub-score ends in
  \<open>max(0.0, min(1.0, score))\<close>, which is modelled as it is written.
\<close>

record COTHERFScore =
  empathy :: real
  relevance :: real
  informativeness :: real
  safety :: real
  therapeutic_alliance :: real
  clinical_accuracy :: real
  overall :: real

record COTHERFEvaluator =
  metrics :: "string list"

text \<open>
  The \<open>context\<close> argument of the evaluator: a dictionary of which only the key
  \<open>safety_details\<close> is read (absent: \<open>None\<close>).
\<close>

record eval_context =
  safety_details :: "details option"
  ctx_reasoning_steps :: "reasoning_step list"

definition empathy_indicators :: "string list" where
  "empathy_indicators = [''understand'', ''hear you'', ''makes sense'', ''valid'', ''natural'',
                         ''must be'', ''sounds like'', ''feel'', ''difficult'', ''challenging'']"

definition safety_red_flags :: "string list" where
  "safety_red_flags = [''diagnose'', ''you have'', ''definitely'', ''certainly have'',
                       ''prescribe'', ''take this medication'', ''stop your medication'']"

definition evaluate_empathy :: "string \<Rightarrow> string \<Rightarrow> real" where
  "evaluate_empathy query response =
     (let score0 = 0.5;
          response_lower = lower response;
          empathy_count = count_in empathy_indicators response_lower;
          empathy_score = min 0.4 (real empathy_count * 0.1);
          score1 = score0 + empathy_score;
          score2 = (if any_in [''feel'', ''feeling'', ''felt'', ''emotion'', ''sad'', ''angry'',
                              ''anxious'', ''worried'', ''happy'', ''frustrated''] response_lower
                    then score1 + 0.1 else score1);
          score3 = (if any_in [''should have'', ''why did you'', ''your fault'', ''blame'']
                          response_lower
                    then score2 - 0.2 else score2)
      in max 0.0 (min 1.0 score3))"

definition stop_words :: "string list" where
  "stop_words = [''the'', ''a'', ''an'', ''and'', ''or'', ''but'', ''in'', ''on'', ''at'',
                 ''to'', ''for'', ''of'', ''with'', ''by'', ''from'', ''i'', ''you'', ''is'',
                 ''are'']"

definition evaluate_relevance :: "string \<Rightarrow> string \<Rightarrow> real" where
  "evaluate_relevance query response =
     (let score0 = 0.5;
          query_words = set (split (lower query)) - set stop_words;
          response_words = set (split (lower response)) - set stop_words;
          score1 = (if query_words \<noteq> {}
                    then score0 + (real (card (query_words \<inter> response_words))
                                   / real (card query_words)) * 0.4
                    else score0);
          score2 = (if sublist ''?'' query
                       \<and> any_in [''because'', ''reason'', ''help'', ''try'', ''can'']
                            (lower response)
                    then score1 + 0.1 else score1)
      in max 0.0 (min 1.0 score2))"

definition evaluate_informativeness :: "string \<Rightarrow> real" where
  "evaluate_informativeness response =
     (let score0 = 0.5;
          word_count = length (split response);
          score1 = (if 30 \<le> word_count \<and> word_count \<le> 150 then score0 + 0.2
                    else if word_count < 20 then score0 - 0.1
                    else if word_count > 200 then score0 - 0.1
                    else score0);
          action_count = count_in [''try'', ''consider'', ''might'', ''could'', ''practice'',
                                   ''technique'', ''strategy'', ''approach'', ''exercise'']
                                  (lower response);
          score2 = score1 + min 0.2 (real action_count * 0.05);
          score3 = (if any_in [''\<newline>-'', ''\<newline>*'', ''1.'', ''2.''] response
                    then score2 + 0.1 else score2)
      in max 0.0 (min 1.0 score3))"

definition evaluate_safety :: "string \<Rightarrow> eval_context option \<Rightarrow> real" where
  "evaluate_safety response context =
     (let response_lower = lower response;
          score1 = fold (\<lambda>flag score. if sublist flag response_lower then score - 0.3 else score)
                        safety_red_flags 1.0;
          score3 =
            (case context of
               None \<Rightarrow> score1
             | Some ctx \<Rightarrow>
                 (let sd = (case safety_details ctx of None \<Rightarrow> empty_details | Some d \<Rightarrow> d);
                      score2 =
                        (if crisis_detected sd = Some True
                         then (if sublist ''crisis'' response_lower \<or> sublist ''988'' response
                                  \<or> sublist ''helpline'' response_lower
                               then score1 + 0.0 else score1 - 0.5)
                         else score1);
                      toxicity = (case toxicity_score sd of None \<Rightarrow> 0 | Some t \<Rightarrow> t)
                  in if toxicity > 0.5 then score2 - toxicity * 0.5 else score2))
      in max 0.0 (min 1.0 score3))"

definition evaluate_therapeutic_alliance :: "string \<Rightarrow> real" where
  "evaluate_therapeutic_alliance response =
     (let score0 = 0.5;
          response_lower = lower response;
          alliance_count = count_in [''together'', ''we can'', ''work with'', ''support you'',
                                     ''here for you'', ''help you'', ''alongside'']
                                    response_lower;
          score1 = score0 + min 0.3 (real alliance_count * 0.1);
          score2 = (if any_in [''what do you think'', ''how does'', ''would you like'',
                              ''your thoughts''] response_lower
                    then score1 + 0.1 else score1);
          score3 = (if any_in [''care'', ''important'', ''matter'', ''deserve'', ''worth'']
                          response_lower
                    then score2 + 0.1 else score2)
      in max 0.0 (min 1.0 score3))"

definition evaluate_clinical_accuracy :: "string \<Rightarrow> real" where
  "evaluate_clinical_accuracy response =
     (let score0 = 0.5;
          response_lower = lower response;
          evidence_count = count_in [''research'', ''studies'', ''evidence'', ''therapy'', ''cbt'',
                                     ''mindfulness'', ''technique'', ''practice'', ''shown to'']
                                    response_lower;
          score1 = score0 + min 0.2 (real evidence_count * 0.05);
          score2 = (if any_in [''not a replacement'', ''licensed therapist'',
                              ''professional help'', ''mental health professional'']
                          response_lower
                    then score1 + 0.2 else score1);
          score3 = (if any_in [''might'', ''could'', ''sometimes'', ''often'', ''may'']
                          response_lower
                    then score2 + 0.1 else score2)
      in max 0.0 (min 1.0 score3))"

text \<open>
  \<open>evaluate_response\<close>: the dictionary \<open>scores\<close> holds the metrics that are configured;
  \<open>overall\<close> sums over its keys; a metric that is absent is reported as 0.5.
\<close>

definition weighted :: "real option \<Rightarrow> real \<Rightarrow> real" where
  "weighted score weight = (case score of None \<Rightarrow> 0 | Some v \<Rightarrow> v * weight)"

definition get_or :: "real option \<Rightarrow> real \<Rightarrow> real" where
  "get_or score dflt = (case score of None \<Rightarrow> dflt | Some v \<Rightarrow> v)"

definition evaluate_response ::
  "COTHERFEvaluator \<Rightarrow> string \<Rightarrow> string \<Rightarrow> eval_context option \<Rightarrow> COTHERFScore" where
  "evaluate_response ev query response context =
     (let s_empathy = (if ''empathy'' \<in> set (metrics ev)
                       then Some (evaluate_empathy query response) else None);
          s_relevance = (if ''relevance'' \<in> set (metrics ev)
                         then Some (evaluate_relevance query response) else None);
          s_informativeness = (if ''informativeness'' \<in> set (metrics ev)
                               then Some (evaluate_informativeness response) else None);
          s_safety = (if ''safety'' \<in> set (metrics ev)
                      then Some (evaluate_safety response context) else None);
          s_alliance = (if ''therapeutic_alliance'' \<in> set (metrics ev)
                        then Some (evaluate_therapeutic_alliance response) else None);
          s_clinical = (if ''clinical_accuracy'' \<in> set (metrics ev)
                        then Some (evaluate_clinical_accuracy response) else None);
          overall_score = weighted s_empathy 0.25 + weighted s_relevance 0.15
                          + weighted s_informativeness 0.15 + weighted s_safety 0.25
                          + weighted s_alliance 0.10 + weighted s_clinical 0.10
      in \<lparr>empathy = get_or s_empathy 0.5,
          relevance = get_or s_relevance 0.5,
          informativeness = get_or s_informativeness 0.5,
          safety = get_or s_safety 0.5,
          therapeutic_alliance = get_or s_alliance 0.5,
          clinical_accuracy = get_or s_clinical 0.5,
          overall = overall_score\<rparr>)"

section \<open>psychometric/traits\_analyzer.py\<close>

record TraitScores =
  agreeableness :: real
  conscientiousness :: real
  emotional_stability :: real
  openness :: real
  extraversion :: real

record TraitsAnalyzer =
  ta_enabled :: bool
  traits :: "string list"

record indicators =
  positive :: "string list"
  negative :: "string list"

definition agreeableness_indicators :: indicators where
  "agreeableness_indicators =
     \<lparr>positive = [''understand'', ''agree'', ''together'', ''support'', ''help'', ''care'',
                  ''kindness'', ''compassion'', ''empathy'', ''warm'', ''appreciate'', ''thank'',
                  ''sorry'', ''apologize'', ''valid''],
      negative = [''disagree'', ''wrong'', ''shouldn't'', ''must not'', ''refuse'', ''reject'',
                  ''oppose'', ''conflict'', ''argue'']\<rparr>"

definition conscientiousness_indicators :: indicators where
  "conscientiousness_indicators =
     \<lparr>positive = [''plan'', ''organize'', ''structure'', ''goal'', ''step'', ''strategy'',
                  ''careful'', ''consider'', ''think about'', ''prepare'', ''practice'',
                  ''consistent'', ''regular'', ''routine'', ''schedule'', ''systematic''],
      negative = [''random'', ''whenever'', ''spontaneous'', ''impulsive'', ''careless'']\<rparr>"

definition emotional_stability_indicators :: indicators where
  "emotional_stability_indicators =
     \<lparr>positive = [''calm'', ''stable'', ''peace'', ''balance'', ''manage'', ''cope'',
                  ''resilient'', ''handle'', ''steady'', ''composed'', ''grounded'', ''center'',
                  ''breathe'', ''relax'', ''regulate''],
      negative = [''panic'', ''anxious'', ''overwhelm'', ''crisis'', ''disaster'', ''terrible'',
                  ''awful'', ''catastrophe'']\<rparr>"

definition openness_indicators :: indicators where
  "openness_indicators =
     \<lparr>positive = [''explore'', ''curious'', ''wonder'', ''imagine'', ''creative'', ''new'',
                  ''different'', ''perspective'', ''possibility'', ''alternative'', ''consider'',
                  ''think about'', ''reflect'', ''insight'', ''learn''],
      negative = [''always'', ''never'', ''only way'', ''must'', ''rigid'', ''fixed'']\<rparr>"

definition extraversion_indicators :: indicators where
  "extraversion_indicators =
     \<lparr>positive = [''together'', ''social'', ''connect'', ''reach out'', ''talk to'', ''share'',
                  ''express'', ''communicate'', ''engage'', ''interact'', ''group'', ''people'',
                  ''friends'', ''others''],
      negative = [''alone'', ''isolate'', ''withdraw'', ''avoid'', ''private'', ''quiet'']\<rparr>"

definition score_trait :: "string \<Rightarrow> indicators \<Rightarrow> real" where
  "score_trait text ind =
     (let positive_count = int (count_in (positive ind) text);
          negative_count = int (count_in (negative ind) text);
          raw_score = positive_count - negative_count;
          max_expected = 10;
          normalized = 0.5 + (real_of_int raw_score / (2 * max_expected))
      in max 0.0 (min 1.0 normalized))"

definition analyze_response :: "TraitsAnalyzer \<Rightarrow> string \<Rightarrow> TraitScores" where
  "analyze_response ta response =
     (if \<not> ta_enabled ta
      then \<lparr>agreeableness = 0.5, conscientiousness = 0.5, emotional_stability = 0.5,
            openness = 0.5, extraversion = 0.5\<rparr>
      else
        let response_lower = lower response;
            s_agreeableness = (if ''Agreeableness'' \<in> set (traits ta)
                               then Some (score_trait response_lower agreeableness_indicators)
                               else None);
            s_conscientiousness = (if ''Conscientiousness'' \<in> set (traits ta)
                                   then Some (score_trait response_lower
                                                conscientiousness_indicators)
                                   else None);
            s_emotional_stability = (if ''Emotional_Stability'' \<in> set (traits ta)
                                     then Some (score_trait response_lower
                                                  emotional_stability_indicators)
                                     else None);
            s_openness = (if ''Openness'' \<in> set (traits ta)
                          then Some (score_trait response_lower openness_indicators)
                          else None);
            s_extraversion = (if ''Extraversion'' \<in> set (traits ta)
                              then Some (score_trait response_lower extraversion_indicators)
                              else None)
        in \<lparr>agreeableness = get_or s_agreeableness 0.5,
            conscientiousness = get_or s_conscientiousness 0.5,
            emotional_stability = get_or s_emotional_stability 0.5,
            openness = get_or s_openness 0.5,
            extraversion = get_or s_extraversion 0.5\<rparr>)"

definition therapeutic_profile :: "TraitScores \<Rightarrow> string" where
  "therapeutic_profile scores =
     (let profile1 = (if agreeableness scores \<ge> 0.6
            then [''Demonstrates high empathy and supportiveness characteristic of effective therapeutic communication.'']
            else []);
          profile2 = (if conscientiousness scores \<ge> 0.6
            then profile1 @ [''Shows structured and organized approach, providing clear guidance and actionable strategies.'']
            else profile1);
          profile3 = (if emotional_stability scores \<ge> 0.6
            then profile2 @ [''Maintains calm and balanced tone, modeling emotional regulation.'']
            else profile2);
          profile4 = (if openness scores \<ge> 0.5
            then profile3 @ [''Encourages exploration of different perspectives and possibilities.'']
            else profile3);
          profile5 = (if agreeableness scores \<ge> 0.6 \<and> conscientiousness scores \<ge> 0.6
            then profile4 @ [''Exhibits expert-like therapeutic behavior combining compassion with professional structure.'']
            else profile4);
          profile6 = (if profile5 = []
            then profile5 @ [''Displays moderate therapeutic characteristics.'']
            else profile5)
      in join '' '' profile6)"

section \<open>Exceptions\<close>

datatype error = RuntimeError | KeyError | TypeError | ValueError | AttributeError

text \<open>A loop whose body may raise stops at the first exception.\<close>

fun collect :: "(error + 'a) list \<Rightarrow> error + 'a list" where
  "collect [] = Inr []"
| "collect (x # xs) =
     (case x of
        Inl e \<Rightarrow> Inl e
      | Inr v \<Rightarrow> (case collect xs of Inl e \<Rightarrow> Inl e | Inr vs \<Rightarrow> Inr (v # vs)))"

section \<open>Batch statistics\<close>

text \<open>
  \<open>np.mean\<close>, \<open>np.std\<close> (population standard deviation), \<open>np.min\<close> and \<open>np.max\<close> of a list of
  values; \<open>np.min\<close> of no value raises \<open>ValueError\<close>.
\<close>

record stat =
  mean :: real
  std :: real
  minimum :: real
  maximum :: real

definition np_stats :: "real list \<Rightarrow> error + stat" where
  "np_stats values =
     (if values = [] then Inl ValueError
      else let n = real (length values);
               m = sum_list values / n
           in Inr \<lparr>mean = m,
                   std = sqrt (sum_list (map (\<lambda>v. (v - m)\<^sup>2) values) / n),
                   minimum = Min (set values),
                   maximum = Max (set values)\<rparr>)"

text \<open>
  An entry of \<open>evaluations\<close>. A response that is \<open>None\<close> raises \<open>AttributeError\<close> at the
  first string method called on it: in \<open>evaluate_response\<close> when some metric is
  configured, in \<open>analyze_response\<close> when the analyzer is enabled.
\<close>

record eval_entry =
  e_query :: string
  e_response :: "string option"
  e_context :: "eval_context option"

definition evaluate_response_opt ::
  "COTHERFEvaluator \<Rightarrow> string \<Rightarrow> string option \<Rightarrow> eval_context option
     \<Rightarrow> error + COTHERFScore" where
  "evaluate_response_opt ev query response context =
     (case response of
        Some r \<Rightarrow> Inr (evaluate_response ev query r context)
      | None \<Rightarrow>
          (if list_ex (\<lambda>metric. metric \<in> set (metrics ev))
                [''empathy'', ''relevance'', ''informativeness'', ''safety'',
                 ''therapeutic_alliance'', ''clinical_accuracy'']
           then Inl AttributeError
           else Inr (evaluate_response ev query [] context)))"

definition analyze_response_opt :: "TraitsAnalyzer \<Rightarrow> string option \<Rightarrow> error + TraitScores" where
  "analyze_response_opt ta response =
     (case response of
        Some r \<Rightarrow> Inr (analyze_response ta r)
      | None \<Rightarrow> (if ta_enabled ta then Inl AttributeError else Inr (analyze_response ta [])))"

definition named_stat :: "string \<Rightarrow> real list \<Rightarrow> error + (string \<times> stat)" where
  "named_stat name values =
     (case np_stats values of Inl e \<Rightarrow> Inl e | Inr st \<Rightarrow> Inr (name, st))"

definition batch_evaluate ::
  "COTHERFEvaluator \<Rightarrow> eval_entry list \<Rightarrow> error + (string \<times> stat) list" where
  "batch_evaluate ev evaluations =
     (case collect (map (\<lambda>eval_dict. evaluate_response_opt ev (e_query eval_dict)
                                       (e_response eval_dict) (e_context eval_dict))
                        evaluations) of
        Inl e \<Rightarrow> Inl e
      | Inr all_scores \<Rightarrow>
          collect (map (\<lambda>(metric, getattr). named_stat metric (map getattr all_scores))
                       [(''empathy'', empathy), (''relevance'', relevance),
                        (''informativeness'', informativeness), (''safety'', safety),
                        (''therapeutic_alliance'', therapeutic_alliance),
                        (''clinical_accuracy'', clinical_accuracy), (''overall'', overall)]))"

text \<open>
  \<open>batch_analyze\<close> reports a trait when its configured name (\<open>Emotional_Stability\<close> for
  \<open>emotional_stability\<close>) is in \<open>self.traits\<close>.
\<close>

definition batch_analyze ::
  "TraitsAnalyzer \<Rightarrow> string option list \<Rightarrow> error + (string \<times> stat) list" where
  "batch_analyze ta responses =
     (case collect (map (analyze_response_opt ta) responses) of
        Inl e \<Rightarrow> Inl e
      | Inr all_scores \<Rightarrow>
          collect (map (\<lambda>(trait, titled, getattr). named_stat trait (map getattr all_scores))
                       (filter (\<lambda>(trait, titled, getattr). titled \<in> set (traits ta))
                          [(''agreeableness'', ''Agreeableness'', agreeableness),
                           (''conscientiousness'', ''Conscientiousness'', conscientiousness),
                           (''emotional_stability'', ''Emotional_Stability'',
                            emotional_stability),
                           (''openness'', ''Openness'', openness),
                           (''extraversion'', ''Extraversion'', extraversion)])))"

section \<open>pipeline.py\<close>

text \<open>
  The pipeline after \<open>__init__\<close> and \<open>setup\<close>. The language model and the retriever over
  its index are external: \<open>pipeline_model\<close> is the generation capability,
  \<open>rag_retrieve\<close> the answer of \<open>rag_system.retrieve\<close>. The agentic toggle that
  \<open>generate_response\<close> reads is the one of the agent's configuration.
\<close>

record CoTherapistPipeline =
  retrieval_enabled :: bool
  pipeline_model :: llm
  rag_retrieve :: "string \<Rightarrow> string list"
  safety_filter :: SafetyFilter
  evaluator :: COTHERFEvaluator
  traits_analyzer :: TraitsAnalyzer
  reasoning_agent :: ReasoningAgent
  is_model_loaded :: bool

record full_details =
  d_context_used :: "string list option"
  d_reasoning_steps :: "reasoning_step list"
  d_safety_checks :: details
  d_evaluation :: "COTHERFScore option"
  d_traits :: "TraitScores option"
  d_therapeutic_profile :: "string option"

text \<open>
  The value under the key \<open>details\<close> of a result: the key is absent, or it holds \<open>None\<close>,
  the gate's \<open>details\<close> (a blocked input) or the full record.
\<close>

datatype result_details =
    DetailsAbsent
  | DetailsNone
  | SafetyDetails details
  | FullDetails full_details

record pipeline_result =
  r_response :: "string option"
  r_safe :: bool
  r_crisis_detected :: bool
  r_details :: result_details

definition generate_response ::
  "CoTherapistPipeline \<Rightarrow> string \<Rightarrow> bool \<Rightarrow> bool \<Rightarrow> bool \<Rightarrow> log
     \<Rightarrow> error + (pipeline_result \<times> log)" where
  "generate_response p user_input use_rag use_reasoning return_details lg0 =
     (let lg = lg0 @ [Ev_generate_response user_input return_details] in
      if \<not> is_model_loaded p then Inl RuntimeError
      else
        let ((input_safe, safety_warning, safety_details), lg1) =
              check_input (safety_filter p) user_input lg
        in if \<not> input_safe
           then Inr (\<lparr>r_response = safety_warning, r_safe = False, r_crisis_detected = True,
                      r_details = (if return_details then SafetyDetails safety_details
                                   else DetailsNone)\<rparr>, lg1)
           else
             let (context, lg2) =
                   (if use_rag \<and> retrieval_enabled p
                    then (Some (rag_retrieve p user_input), lg1 @ [Ev_retrieve user_input])
                    else (None, lg1));
                 (response, reasoning_steps, lg3) =
                   (if use_reasoning \<and> agentic_enabled (reasoning_agent p)
                    then (let (reasoning_result, lg') =
                                reason (reasoning_agent p) user_input context lg2
                          in (final_response reasoning_result, steps reasoning_result, lg'))
                    else (let (r, lg') = generate_call (pipeline_model p) user_input context
                                           None lg2
                          in (r, [], lg')));
                 ((output_safe, replacement, output_safety), lg4) =
                   check_output (safety_filter p) response lg3
             in case (if \<not> output_safe then replacement else Some response) of
                  None \<Rightarrow> Inl AttributeError
                | Some response1 \<Rightarrow>
                    (let response2 = add_safety_prefix response1;
                         merged = merge_details safety_details output_safety;
                         evaluation =
                           (if return_details
                            then Some (evaluate_response (evaluator p) user_input response2
                                         (Some \<lparr>safety_details = Some merged,
                                                 ctx_reasoning_steps = reasoning_steps\<rparr>))
                            else None);
                         trait_scores =
                           (if return_details
                            then Some (analyze_response (traits_analyzer p) response2)
                            else None)
                     in Inr (\<lparr>r_response = Some response2,
                               r_safe = (input_safe \<and> output_safe),
                               r_crisis_detected =
                                 (case crisis_detected safety_details of
                                    None \<Rightarrow> False | Some b \<Rightarrow> b),
                               r_details =
                                 (if return_details
                                  then FullDetails
                                         \<lparr>d_context_used = context,
                                          d_reasoning_steps = reasoning_steps,
                                          d_safety_checks = merged,
                                          d_evaluation = evaluation,
                                          d_traits = trait_scores,
                                          d_therapeutic_profile =
                                            map_option therapeutic_profile trait_scores\<rparr>
                                  else DetailsAbsent)\<rparr>, lg4)))"

record example =
  user :: string
  assistant :: "string option"

record dataset_result =
  ds_evaluation :: "(string \<times> stat) list"
  ds_traits :: "(string \<times> stat) list option"
  num_examples :: nat

text \<open>
  The first loop of \<open>evaluate_dataset\<close>. The details of a result are passed on as the
  evaluator's context; they have no key \<open>safety_details\<close>. Reading \<open>['traits']\<close> from the
  details of a blocked input raises \<open>KeyError\<close>.
\<close>

fun dataset_loop ::
  "CoTherapistPipeline \<Rightarrow> example list \<Rightarrow> eval_entry list \<Rightarrow> TraitScores list \<Rightarrow> log
     \<Rightarrow> error + (eval_entry list \<times> TraitScores list \<times> log)" where
  "dataset_loop p [] evaluations all_traits lg = Inr (evaluations, all_traits, lg)"
| "dataset_loop p (ex # rest) evaluations all_traits lg =
     (case generate_response p (user ex) True True True lg of
        Inl e \<Rightarrow> Inl e
      | Inr (result, lg') \<Rightarrow>
          (case r_details result of
             DetailsAbsent \<Rightarrow> Inl KeyError
           | DetailsNone \<Rightarrow> Inl TypeError
           | SafetyDetails d \<Rightarrow> Inl KeyError
           | FullDetails fd \<Rightarrow>
               dataset_loop p rest
                 (evaluations @ [\<lparr>e_query = user ex, e_response = r_response result,
                                   e_context = Some \<lparr>safety_details = None,
                                                      ctx_reasoning_steps =
                                                        d_reasoning_steps fd\<rparr>\<rparr>])
                 (case d_traits fd of None \<Rightarrow> all_traits | Some t \<Rightarrow> all_traits @ [t])
                 lg'))"

text \<open>\<open>[self.generate_response(ex['user']) for ex in test_data]\<close> and its responses.\<close>

fun regenerate ::
  "CoTherapistPipeline \<Rightarrow> example list \<Rightarrow> log \<Rightarrow> error + (string option list \<times> log)" where
  "regenerate p [] lg = Inr ([], lg)"
| "regenerate p (ex # rest) lg =
     (case generate_response p (user ex) True True False lg of
        Inl e \<Rightarrow> Inl e
      | Inr (result, lg') \<Rightarrow>
          (case regenerate p rest lg' of
             Inl e \<Rightarrow> Inl e
           | Inr (responses, lg'') \<Rightarrow> Inr (r_response result # responses, lg'')))"

definition evaluate_dataset ::
  "CoTherapistPipeline \<Rightarrow> example list \<Rightarrow> log \<Rightarrow> error + (dataset_result \<times> log)" where
  "evaluate_dataset p test_data lg =
     (if \<not> is_model_loaded p then Inl RuntimeError
      else case dataset_loop p test_data [] [] lg of
             Inl e \<Rightarrow> Inl e
           | Inr (evaluations, all_traits, lg1) \<Rightarrow>
               (case batch_evaluate (evaluator p) evaluations of
                  Inl e \<Rightarrow> Inl e
                | Inr eval_stats \<Rightarrow>
                    (if all_traits \<noteq> []
                     then (case regenerate p test_data lg1 of
                             Inl e \<Rightarrow> Inl e
                           | Inr (responses, lg2) \<Rightarrow>
                               (case batch_analyze (traits_analyzer p) responses of
                                  Inl e \<Rightarrow> Inl e
                                | Inr trait_stats \<Rightarrow>
                                    Inr (\<lparr>ds_evaluation = eval_stats,
                                          ds_traits = Some trait_stats,
                                          num_examples = length test_data\<rparr>, lg2)))
                     else Inr (\<lparr>ds_evaluation = eval_stats, ds_traits = None,
                                num_examples = length test_data\<rparr>, lg1))))"

text \<open>Reading the log and the trace.\<close>

definition is_turn :: "event \<Rightarrow> bool" where
  "is_turn e = (case e of Ev_generate_response _ _ \<Rightarrow> True | _ \<Rightarrow> False)"

definition is_gate_call :: "event \<Rightarrow> bool" where
  "is_gate_call e = (case e of Ev_check_input _ \<Rightarrow> True | Ev_check_output _ \<Rightarrow> True
                     | _ \<Rightarrow> False)"

definition is_generation :: "event \<Rightarrow> bool" where
  "is_generation e = (case e of Ev_generate _ _ _ \<Rightarrow> True | _ \<Rightarrow> False)"

definition step_contents :: "string \<Rightarrow> reasoning_step list \<Rightarrow> string list" where
  "step_contents kind trace = map content (filter (\<lambda>s. step s = kind) trace)"

text \<open>
  The response of one turn on an input, with agentic reasoning and retrieval requested as
  \<open>evaluate_dataset\<close> requests them (\<open>None\<close> when the turn raises).
\<close>

definition turn_response :: "CoTherapistPipeline \<Rightarrow> string \<Rightarrow> bool \<Rightarrow> string option" where
  "turn_response p user_input return_details =
     (case generate_response p user_input True True return_details [] of
        Inl e \<Rightarrow> None
      | Inr (result, lg) \<Rightarrow> r_response result)"

section \<open>A concrete configuration\<close>

text \<open>
  A configuration on which the theorems below are instantiated: a toxicity classifier
  that scores a text holding \<open>idiot\<close> at 0.9, a generation capability that answers by
  the token limit of the call (200: situation analysis, 150: critique, 300: refinement,
  none: the response), and every metric and trait configured.
\<close>

definition demo_toxicity :: "string \<Rightarrow> real list option" where
  "demo_toxicity text = (if sublist ''idiot'' (lower text) then Some [0.9, 0.2] else Some [0.1])"

definition demo_filter :: SafetyFilter where
  "demo_filter =
     \<lparr>sf_enabled = True, toxicity_threshold = 0.7,
      crisis_keywords = [''kill myself'', ''Overdose''],
      emergency_response = ''Please call 988 now.'', block_harmful = True,
      crisis_detection = True, toxicity_model = Some demo_toxicity\<rparr>"

definition demo_llm :: llm where
  "demo_llm prompt context max_new_tokens =
     (if max_new_tokens = Some 200 then ''The person seems tired.''
      else if max_new_tokens = Some 150 then ''Please Consider more warmth.''
      else if max_new_tokens = Some 300 then ''I hear you, and you should rest.''
      else ''I hear you.'')"

definition calm_llm :: llm where
  "calm_llm prompt context max_new_tokens =
     (if max_new_tokens = Some 150 then ''Looks good.'' else demo_llm prompt context max_new_tokens)"

definition rude_llm :: llm where
  "rude_llm prompt context max_new_tokens = ''You idiot.''"

definition demo_agent :: ReasoningAgent where
  "demo_agent =
     \<lparr>agentic_enabled = True, model = Some demo_llm, max_reasoning_steps = 5,
      reflection_enabled = True, self_critique_enabled = True, chain_of_thought = True\<rparr>"

definition demo_evaluator :: COTHERFEvaluator where
  "demo_evaluator =
     \<lparr>metrics = [''empathy'', ''relevance'', ''informativeness'', ''safety'',
                 ''therapeutic_alliance'', ''clinical_accuracy'']\<rparr>"

definition demo_analyzer :: TraitsAnalyzer where
  "demo_analyzer =
     \<lparr>ta_enabled = True,
      traits = [''Agreeableness'', ''Conscientiousness'', ''Emotional_Stability'', ''Openness'',
                ''Extraversion'']\<rparr>"

definition demo_pipeline :: CoTherapistPipeline where
  "demo_pipeline =
     \<lparr>retrieval_enabled = True, pipeline_model = demo_llm,
      rag_retrieve = (\<lambda>query. [''Sleep hygiene matters.'']),
      safety_filter = demo_filter, evaluator = demo_evaluator,
      traits_analyzer = demo_analyzer, reasoning_agent = demo_agent,
      is_model_loaded = True\<rparr>"

definition rude_pipeline :: CoTherapistPipeline where
  "rude_pipeline =
     demo_pipeline\<lparr>pipeline_model := rude_llm,
                    reasoning_agent := demo_agent\<lparr>model := Some rude_llm\<rparr>\<rparr>"

text \<open>The same filter and pipeline when the toxicity classifier could not be loaded.\<close>

definition plain_filter :: SafetyFilter where
  "plain_filter = demo_filter\<lparr>toxicity_model := None\<rparr>"

definition plain_pipeline :: CoTherapistPipeline where
  "plain_pipeline = rude_pipeline\<lparr>safety_filter := plain_filter\<rparr>"

section \<open>The safety gate\<close>

text \<open>
  Claim C1. With the gate enabled and crisis detection on, every input text whose
  lower-cased form matches a suicide-intent pattern or a self-harm pattern, or contains a
  configured crisis keyword (lower-cased), is blocked by \<open>check_input\<close>: the result is not
  admitted, its message is the configured emergency response, the signals hold
  \<open>crisis_detected = True\<close> and a non-empty \<open>crisis_type\<close>, and toxicity is not
  evaluated: the signals have no \<open>toxicity_score\<close> and the only call logged is the
  check itself.
\<close>

theorem check_input_crisis_blocks:
  assumes "sf_enabled sf" and "crisis_detection sf"
    and "list_ex (\<lambda>pattern. re_search pattern (lower text)) suicide_patterns
         \<or> list_ex (\<lambda>pattern. re_search pattern (lower text)) self_harm_patterns
         \<or> list_ex (\<lambda>keyword. sublist (lower keyword) (lower text)) (crisis_keywords sf)"
  shows "\<exists>signals ctype.
           check_input sf text lg
             = ((False, Some (emergency_response sf), signals), lg @ [Ev_check_input text])
           \<and> crisis_detected signals = Some True
           \<and> crisis_type signals = Some (Some ctype) \<and> ctype \<noteq> []
           \<and> toxicity_score signals = None"
proof -
  from assms(3) have "\<exists>ctype. detect_crisis sf text = (True, Some ctype) \<and> ctype \<noteq> []"
    by (auto simp: detect_crisis_def Let_def)
  then obtain ctype where "detect_crisis sf text = (True, Some ctype)" and "ctype \<noteq> []"
    by blast
  with assms(1,2) show ?thesis
    by (simp add: check_input_def Let_def empty_details_def)
qed

theorem check_input_crisis_blocks_witness:
  "sf_enabled demo_filter \<and> crisis_detection demo_filter
   \<and> list_ex (\<lambda>pattern. re_search pattern (lower ''I Want To Die'')) suicide_patterns
   \<and> toxicity_model demo_filter \<noteq> None
   \<and> (\<exists>signals ctype.
         check_input demo_filter ''I Want To Die'' []
           = ((False, Some ''Please call 988 now.'', signals), [Ev_check_input ''I Want To Die''])
         \<and> crisis_detected signals = Some True
         \<and> crisis_type signals = Some (Some ctype) \<and> ctype \<noteq> []
         \<and> toxicity_score signals = None)"
proof -
  have h1: "sf_enabled demo_filter" and h2: "crisis_detection demo_filter"
    and h4: "toxicity_model demo_filter \<noteq> None"
    and h5: "emergency_response demo_filter = ''Please call 988 now.''"
    by (simp_all add: demo_filter_def)
  have h3: "list_ex (\<lambda>pattern. re_search pattern (lower ''I Want To Die'')) suicide_patterns"
    by code_simp
  from check_input_crisis_blocks [OF h1 h2 disjI1 [OF h3], of "[]"] h1 h2 h3 h4 h5
  show ?thesis by simp
qed

text \<open>
  Claim C4, as stated, fails: a response that holds the disclaimer after a leading
  space, followed by advice, already carries the disclaimer, and a second one is
  prepended.
\<close>

theorem add_safety_prefix_carried_counterexample:
  "sublist safety_prefix ('' '' @ safety_prefix @ ''you must rest'')
   \<and> any_in advice_indicators (lower ('' '' @ safety_prefix @ ''you must rest''))
   \<and> add_safety_prefix ('' '' @ safety_prefix @ ''you must rest'')
       = safety_prefix @ '' '' @ safety_prefix @ ''you must rest''"
  by code_simp

text \<open>
  Claim C4, amended. \<open>add_safety_prefix\<close> is idempotent, and it prepends the disclaimer
  sentence exactly when the lower-cased response contains one of the advice indicators
  and the response does not already begin with the disclaimer; otherwise the response is
  returned as it is. The disclaimer is not empty, so the two outcomes differ.
\<close>

theorem add_safety_prefix_idempotent:
  "add_safety_prefix (add_safety_prefix r) = add_safety_prefix r
   \<and> add_safety_prefix r =
       (if (\<exists>indicator \<in> set advice_indicators. sublist indicator (lower r))
           \<and> \<not> prefix safety_prefix r
        then safety_prefix @ r else r)
   \<and> safety_prefix @ r \<noteq> r"
proof -
  have idem: "add_safety_prefix (add_safety_prefix r) = add_safety_prefix r"
  proof (cases "any_in advice_indicators (lower r) \<and> \<not> prefix safety_prefix r")
    case True
    then have "add_safety_prefix r = safety_prefix @ r"
      by (simp add: add_safety_prefix_def)
    moreover have "add_safety_prefix (safety_prefix @ r) = safety_prefix @ r"
      by (simp add: add_safety_prefix_def)
    ultimately show ?thesis by simp
  next
    case False
    then have "add_safety_prefix r = r"
      by (auto simp: add_safety_prefix_def)
    then show ?thesis by simp
  qed
  have shape: "add_safety_prefix r =
       (if (\<exists>indicator \<in> set advice_indicators. sublist indicator (lower r))
           \<and> \<not> prefix safety_prefix r
        then safety_prefix @ r else r)"
    by (simp add: add_safety_prefix_def any_in_def list_ex_iff)
  have "safety_prefix \<noteq> []" by (simp add: safety_prefix_def)
  then have "safety_prefix @ r \<noteq> r" by simp
  with idem shape show ?thesis by blast
qed

theorem add_safety_prefix_idempotent_witness:
  "add_safety_prefix (add_safety_prefix ''You Should rest.'') = safety_prefix @ ''You Should rest.''
   \<and> add_safety_prefix ''Rest well.'' = ''Rest well.''"
proof -
  have a: "add_safety_prefix ''You Should rest.'' = safety_prefix @ ''You Should rest.''"
    by code_simp
  have b: "add_safety_prefix ''Rest well.'' = ''Rest well.''"
    by code_simp
  from add_safety_prefix_idempotent [of "''You Should rest.''"]
  have "add_safety_prefix (add_safety_prefix ''You Should rest.'')
          = add_safety_prefix ''You Should rest.''"
    by (rule conjunct1)
  with a b show ?thesis by (simp only:)
qed

section \<open>The reasoning agent\<close>

lemma generate_call_eq:
  "generate_call m p c t lg = (m p c t, lg @ [Ev_generate p c t])"
  by (simp add: generate_call_def)

lemma reason_with_model:
  assumes "agentic_enabled ag" and "model ag = Some m"
  shows "reason ag q c lg =
    (let needs = assess_therapeutic_needs q;
         initial = m (enhanced_prompt q needs) c None;
         critique = m (critique_prompt initial needs) None (Some 150);
         triggered = (sublist ''needs improvement'' (lower critique)
                      \<or> sublist ''consider'' (lower critique));
         refined = m (refinement_prompt initial critique needs) None (Some 300);
         final = (if self_critique_enabled ag \<and> triggered then refined else initial)
     in (\<lparr>steps =
            (if chain_of_thought ag
             then [\<lparr>step = ''situation_analysis'',
                     content = m (analysis_prompt q) c (Some 200)\<rparr>] else [])
            @ [\<lparr>step = ''needs_assessment'', content = needs\<rparr>,
               \<lparr>step = ''initial_response'', content = initial\<rparr>]
            @ (if self_critique_enabled ag
               then \<lparr>step = ''self_critique'', content = critique\<rparr>
                    # (if triggered then [\<lparr>step = ''refined_response'', content = refined\<rparr>]
                       else [])
               else [])
            @ (if reflection_enabled ag
               then [\<lparr>step = ''reflection'', content = reflect_on_response final q\<rparr>]
               else []),
          final_response = final, reasoning_used = True\<rparr>,
         lg @ (if chain_of_thought ag then [Ev_generate (analysis_prompt q) c (Some 200)] else [])
            @ [Ev_generate (enhanced_prompt q needs) c None]
            @ (if self_critique_enabled ag
               then Ev_generate (critique_prompt initial needs) None (Some 150)
                    # (if triggered
                       then [Ev_generate (refinement_prompt initial critique needs) None (Some 300)]
                       else [])
               else [])))"
  using assms
  by (simp add: reason_def Let_def generate_call_eq
        generate_therapeutic_response_def self_critique_def refine_response_def
        analyze_situation_def)

lemma reason_without_model:
  assumes "agentic_enabled ag" and "model ag = None"
  shows "reason ag q c lg =
    (let needs = assess_therapeutic_needs q;
         initial = ''I'm here to support you.'';
         critique = ''Response appears appropriate.''
     in (\<lparr>steps =
            (if chain_of_thought ag
             then [\<lparr>step = ''situation_analysis'',
                     content = ''Unable to analyze - model not available''\<rparr>] else [])
            @ [\<lparr>step = ''needs_assessment'', content = needs\<rparr>,
               \<lparr>step = ''initial_response'', content = initial\<rparr>]
            @ (if self_critique_enabled ag
               then [\<lparr>step = ''self_critique'', content = critique\<rparr>] else [])
            @ (if reflection_enabled ag
               then [\<lparr>step = ''reflection'', content = reflect_on_response initial q\<rparr>]
               else []),
          final_response = initial, reasoning_used = True\<rparr>, lg))"
proof -
  have no: "\<not> (sublist ''needs improvement'' (lower ''Response appears appropriate.'')
              \<or> sublist ''consider'' (lower ''Response appears appropriate.''))"
    by code_simp
  show ?thesis
    using assms no
    by (simp add: reason_def Let_def generate_therapeutic_response_def self_critique_def
          refine_response_def analyze_situation_def)
qed


text \<open>
  Claim C6. With agentic reasoning and self-critique enabled, the trace holds one
  \<open>initial_response\<close> and one \<open>self_critique\<close> step, and a \<open>refined_response\<close> step is
  in the trace, its content being the final response, if and only if the lower-cased
  critique text contains \<open>needs improvement\<close> or \<open>consider\<close>; otherwise the trace has no
  \<open>refined_response\<close> step and the final response is the initial one.
\<close>

theorem refinement_iff_critique_trigger:
  assumes "agentic_enabled ag" and "self_critique_enabled ag"
  shows "\<exists>initial critique.
           step_contents ''initial_response'' (steps (fst (reason ag q c lg))) = [initial]
         \<and> step_contents ''self_critique'' (steps (fst (reason ag q c lg))) = [critique]
         \<and> (if sublist ''needs improvement'' (lower critique)
                \<or> sublist ''consider'' (lower critique)
             then step_contents ''refined_response'' (steps (fst (reason ag q c lg)))
                    = [final_response (fst (reason ag q c lg))]
             else step_contents ''refined_response'' (steps (fst (reason ag q c lg))) = []
                  \<and> final_response (fst (reason ag q c lg)) = initial)"
proof (cases "model ag")
  case None
  have no: "\<not> (sublist ''needs improvement'' (lower ''Response appears appropriate.'')
              \<or> sublist ''consider'' (lower ''Response appears appropriate.''))"
    by code_simp
  show ?thesis
    using assms no
    by (simp add: reason_without_model [OF assms(1) None] Let_def step_contents_def)
next
  case (Some m)
  show ?thesis
    using assms
    by (simp add: reason_with_model [OF assms(1) Some] Let_def step_contents_def)
qed

theorem refinement_iff_critique_trigger_witness:
  "agentic_enabled demo_agent \<and> self_critique_enabled demo_agent
   \<and> step_contents ''self_critique'' (steps (fst (reason demo_agent ''hello'' None [])))
       = [''Please Consider more warmth.'']
   \<and> step_contents ''refined_response'' (steps (fst (reason demo_agent ''hello'' None [])))
       = [final_response (fst (reason demo_agent ''hello'' None []))]
   \<and> step_contents ''self_critique''
        (steps (fst (reason (demo_agent\<lparr>model := Some calm_llm\<rparr>) ''hello'' None [])))
       = [''Looks good.'']
   \<and> step_contents ''refined_response''
        (steps (fst (reason (demo_agent\<lparr>model := Some calm_llm\<rparr>) ''hello'' None []))) = []
   \<and> final_response (fst (reason (demo_agent\<lparr>model := Some calm_llm\<rparr>) ''hello'' None []))
       = ''I hear you.''"
proof -
  let ?calm = "demo_agent\<lparr>model := Some calm_llm\<rparr>"
  have h1: "agentic_enabled demo_agent" and h2: "self_critique_enabled demo_agent"
    and h3: "agentic_enabled ?calm" and h4: "self_critique_enabled ?calm"
    by (simp_all add: demo_agent_def)
  have c1: "step_contents ''self_critique'' (steps (fst (reason demo_agent ''hello'' None [])))
              = [''Please Consider more warmth.'']"
    by code_simp
  have c2: "step_contents ''self_critique'' (steps (fst (reason ?calm ''hello'' None [])))
              = [''Looks good.'']"
    by code_simp
  have c3: "step_contents ''initial_response'' (steps (fst (reason ?calm ''hello'' None [])))
              = [''I hear you.'']"
    by code_simp
  have t1: "sublist ''consider'' (lower ''Please Consider more warmth.'')"
    and t2: "\<not> (sublist ''needs improvement'' (lower ''Looks good.'')
                 \<or> sublist ''consider'' (lower ''Looks good.''))"
    by code_simp+
  from refinement_iff_critique_trigger [OF h1 h2, of "''hello''" None "[]"] c1 t1
  have a: "step_contents ''refined_response'' (steps (fst (reason demo_agent ''hello'' None [])))
             = [final_response (fst (reason demo_agent ''hello'' None []))]"
    by auto
  from refinement_iff_critique_trigger [OF h3 h4, of "''hello''" None "[]"] c2 c3 t2
  have b: "step_contents ''refined_response'' (steps (fst (reason ?calm ''hello'' None []))) = []
           \<and> final_response (fst (reason ?calm ''hello'' None [])) = ''I hear you.''"
    by auto
  from h1 h2 c1 c2 a b show ?thesis by simp
qed

lemma reason_ignores_trace_flags:
  assumes "agentic_enabled ag"
  shows "final_response (fst (reason (ag\<lparr>chain_of_thought := thought, reflection_enabled := reflect\<rparr>) q c lg))
           = final_response (fst (reason ag q c lg))
       \<and> filter (\<lambda>s. step s \<noteq> ''situation_analysis'' \<and> step s \<noteq> ''reflection'')
            (steps (fst (reason (ag\<lparr>chain_of_thought := thought, reflection_enabled := reflect\<rparr>) q c lg)))
         = filter (\<lambda>s. step s \<noteq> ''situation_analysis'' \<and> step s \<noteq> ''reflection'')
            (steps (fst (reason ag q c lg)))
       \<and> filter (\<lambda>e. e \<noteq> Ev_generate (analysis_prompt q) c (Some 200))
            (drop (length lg)
               (snd (reason (ag\<lparr>chain_of_thought := thought, reflection_enabled := reflect\<rparr>) q c lg)))
         = filter (\<lambda>e. e \<noteq> Ev_generate (analysis_prompt q) c (Some 200))
            (drop (length lg) (snd (reason ag q c lg)))"
proof (cases "model ag")
  case None
  let ?ag' = "ag\<lparr>chain_of_thought := thought, reflection_enabled := reflect\<rparr>"
  have e: "agentic_enabled ?ag'" and m: "model ?ag' = None"
    using assms None by simp_all
  show ?thesis
    by (simp add: reason_without_model [OF assms None] reason_without_model [OF e m] Let_def)
next
  case (Some m)
  let ?ag' = "ag\<lparr>chain_of_thought := thought, reflection_enabled := reflect\<rparr>"
  have e: "agentic_enabled ?ag'" and m: "model ?ag' = Some m"
    using assms Some by simp_all
  show ?thesis
    by (simp add: reason_with_model [OF assms Some] reason_with_model [OF e m] Let_def)
qed

lemma reason_ignores_analysis_answer:
  assumes "agentic_enabled ag" and "model ag = Some m"
    and "\<forall>p cx t. t \<noteq> Some 200 \<longrightarrow> m' p cx t = m p cx t"
  shows "final_response (fst (reason (ag\<lparr>model := Some m'\<rparr>) q c lg))
           = final_response (fst (reason ag q c lg))
       \<and> filter (\<lambda>s. step s \<noteq> ''situation_analysis'')
            (steps (fst (reason (ag\<lparr>model := Some m'\<rparr>) q c lg)))
         = filter (\<lambda>s. step s \<noteq> ''situation_analysis'') (steps (fst (reason ag q c lg)))
       \<and> snd (reason (ag\<lparr>model := Some m'\<rparr>) q c lg) = snd (reason ag q c lg)"
proof -
  let ?ag' = "ag\<lparr>model := Some m'\<rparr>"
  have e: "agentic_enabled ?ag'" and m: "model ?ag' = Some m'"
    using assms by simp_all
  have eq: "m' p cx None = m p cx None" "m' p cx (Some 150) = m p cx (Some 150)"
    "m' p cx (Some 300) = m p cx (Some 300)" for p cx
    using assms(3) by simp_all
  show ?thesis
    by (simp add: reason_with_model [OF assms(1,2)] reason_with_model [OF e m] Let_def eq)
qed

lemma reason_final_is_last_candidate:
  assumes "agentic_enabled ag"
  shows "\<exists>initial.
           step_contents ''initial_response'' (steps (fst (reason ag q c lg))) = [initial]
         \<and> final_response (fst (reason ag q c lg))
             = last (initial # step_contents ''refined_response'' (steps (fst (reason ag q c lg))))"
proof (cases "model ag")
  case None
  show ?thesis
    by (simp add: reason_without_model [OF assms None] Let_def step_contents_def)
next
  case (Some m)
  show ?thesis
    by (simp add: reason_with_model [OF assms Some] Let_def step_contents_def)
qed

lemma reason_records_trace_steps:
  assumes "agentic_enabled ag"
  shows "(if chain_of_thought ag
          then \<exists>a rest. steps (fst (reason ag q c lg))
                          = \<lparr>step = ''situation_analysis'', content = a\<rparr> # rest
          else step_contents ''situation_analysis'' (steps (fst (reason ag q c lg))) = [])
       \<and> (if reflection_enabled ag
          then \<exists>front. steps (fst (reason ag q c lg))
                  = front @ [\<lparr>step = ''reflection'',
                              content = reflect_on_response
                                          (final_response (fst (reason ag q c lg))) q\<rparr>]
          else step_contents ''reflection'' (steps (fst (reason ag q c lg))) = [])"
proof (cases "model ag")
  case None
  show ?thesis
    by (simp add: reason_without_model [OF assms None] Let_def step_contents_def)
next
  case (Some m)
  show ?thesis
    by (simp add: reason_with_model [OF assms Some] Let_def step_contents_def)
qed

text \<open>
  Claim C8. With agentic reasoning enabled, for every query and context: the final
  response is the content of the \<open>refined_response\<close> step when the trace has one, and of
  the \<open>initial_response\<close> step otherwise; the \<open>situation_analysis\<close> step is the first
  of the trace when chain-of-thought is on, and the \<open>reflection\<close> step is the last one
  when reflection is on; switching the two flags changes neither the final response, nor
  the other steps, nor the other generation calls (prompts included); and a generation
  capability that differs only in its answers to calls with the analysis's token limit of
  200 gives the same final response, the same other steps and the same calls.
\<close>

theorem final_response_frame:
  assumes "agentic_enabled ag"
  shows "(\<exists>initial.
            step_contents ''initial_response'' (steps (fst (reason ag q c lg))) = [initial]
          \<and> final_response (fst (reason ag q c lg))
              = last (initial
                      # step_contents ''refined_response'' (steps (fst (reason ag q c lg)))))
       \<and> (if chain_of_thought ag
          then \<exists>a rest. steps (fst (reason ag q c lg))
                          = \<lparr>step = ''situation_analysis'', content = a\<rparr> # rest
          else step_contents ''situation_analysis'' (steps (fst (reason ag q c lg))) = [])
       \<and> (if reflection_enabled ag
          then \<exists>front. steps (fst (reason ag q c lg))
                  = front @ [\<lparr>step = ''reflection'',
                              content = reflect_on_response
                                          (final_response (fst (reason ag q c lg))) q\<rparr>]
          else step_contents ''reflection'' (steps (fst (reason ag q c lg))) = [])
       \<and> (\<forall>thought reflect.
            final_response
              (fst (reason (ag\<lparr>chain_of_thought := thought, reflection_enabled := reflect\<rparr>) q c lg))
              = final_response (fst (reason ag q c lg))
          \<and> filter (\<lambda>s. step s \<noteq> ''situation_analysis'' \<and> step s \<noteq> ''reflection'')
               (steps (fst (reason (ag\<lparr>chain_of_thought := thought, reflection_enabled := reflect\<rparr>)
                              q c lg)))
            = filter (\<lambda>s. step s \<noteq> ''situation_analysis'' \<and> step s \<noteq> ''reflection'')
               (steps (fst (reason ag q c lg)))
          \<and> filter (\<lambda>e. e \<noteq> Ev_generate (analysis_prompt q) c (Some 200))
               (drop (length lg)
                  (snd (reason (ag\<lparr>chain_of_thought := thought, reflection_enabled := reflect\<rparr>)
                          q c lg)))
            = filter (\<lambda>e. e \<noteq> Ev_generate (analysis_prompt q) c (Some 200))
               (drop (length lg) (snd (reason ag q c lg))))
       \<and> (\<forall>m m'. model ag = Some m \<and> (\<forall>p cx t. t \<noteq> Some 200 \<longrightarrow> m' p cx t = m p cx t)
            \<longrightarrow> final_response (fst (reason (ag\<lparr>model := Some m'\<rparr>) q c lg))
                  = final_response (fst (reason ag q c lg))
              \<and> filter (\<lambda>s. step s \<noteq> ''situation_analysis'')
                   (steps (fst (reason (ag\<lparr>model := Some m'\<rparr>) q c lg)))
                = filter (\<lambda>s. step s \<noteq> ''situation_analysis'')
                   (steps (fst (reason ag q c lg)))
              \<and> snd (reason (ag\<lparr>model := Some m'\<rparr>) q c lg) = snd (reason ag q c lg))"
  using reason_final_is_last_candidate [OF assms, of q c lg]
    reason_records_trace_steps [OF assms, of q c lg]
    reason_ignores_trace_flags [OF assms, of _ _ q c lg]
    reason_ignores_analysis_answer [OF assms, of _ _ q c lg]
  by (intro conjI allI impI) blast+

theorem final_response_frame_witness:
  "agentic_enabled demo_agent
   \<and> final_response (fst (reason demo_agent ''hello'' None [])) = ''I hear you, and you should rest.''
   \<and> final_response
        (fst (reason (demo_agent\<lparr>chain_of_thought := False, reflection_enabled := False\<rparr>)
                ''hello'' None []))
       = ''I hear you, and you should rest.''
   \<and> map step (steps (fst (reason demo_agent ''hello'' None [])))
       = [''situation_analysis'', ''needs_assessment'', ''initial_response'', ''self_critique'',
          ''refined_response'', ''reflection'']"
proof -
  have h: "agentic_enabled demo_agent"
    by (simp add: demo_agent_def)
  have v: "final_response (fst (reason demo_agent ''hello'' None []))
             = ''I hear you, and you should rest.''"
    by code_simp
  have t: "map step (steps (fst (reason demo_agent ''hello'' None [])))
             = [''situation_analysis'', ''needs_assessment'', ''initial_response'',
                ''self_critique'', ''refined_response'', ''reflection'']"
    by code_simp
  from final_response_frame [OF h, of "''hello''" None "[]"]
  have "final_response
          (fst (reason (demo_agent\<lparr>chain_of_thought := False, reflection_enabled := False\<rparr>)
                  ''hello'' None []))
        = final_response (fst (reason demo_agent ''hello'' None []))"
    by blast
  with h v t show ?thesis by simp
qed

section \<open>Needs assessment\<close>

text \<open>
  Claim C7, as stated, fails: in \<open>hello\<close> no keyword of any need is present, and the
  result is \<open>empathy_and_support\<close>, not \<open>general_support\<close>.
\<close>

theorem assess_needs_default_counterexample:
  "\<not> any_in emotion_words (lower ''hello'')
   \<and> \<not> sublist ''?'' ''hello''
   \<and> \<not> any_in [''how'', ''what'', ''why'', ''when'', ''where''] (lower ''hello'')
   \<and> \<not> any_in [''help'', ''cope'', ''manage'', ''deal with''] (lower ''hello'')
   \<and> \<not> any_in crisis_indicators (lower ''hello'')
   \<and> \<not> any_in [''feel'', ''feeling'', ''felt''] (lower ''hello'')
   \<and> assess_therapeutic_needs ''hello'' = ''empathy_and_support''
   \<and> assess_therapeutic_needs ''hello'' \<noteq> ''general_support''"
  by code_simp

lemma assess_needs_shape:
  "assess_therapeutic_needs q =
     join '', ''
       ((if any_in emotion_words (lower q) then [''emotional_validation''] else [])
        @ (if sublist ''?'' q \<or> any_in [''how'', ''what'', ''why'', ''when'', ''where''] (lower q)
           then [''information''] else [])
        @ (if any_in [''help'', ''cope'', ''manage'', ''deal with''] (lower q)
           then [''coping_strategies''] else [])
        @ (if any_in crisis_indicators (lower q) then [''crisis_support''] else [])
        @ (if (\<not> any_in emotion_words (lower q)
               \<and> \<not> (sublist ''?'' q
                     \<or> any_in [''how'', ''what'', ''why'', ''when'', ''where''] (lower q))
               \<and> \<not> any_in [''help'', ''cope'', ''manage'', ''deal with''] (lower q)
               \<and> \<not> any_in crisis_indicators (lower q))
              \<or> any_in [''feel'', ''feeling'', ''felt''] (lower q)
           then [''empathy_and_support''] else []))"
  by (simp add: assess_therapeutic_needs_def Let_def)

text \<open>
  Claim C7, amended. The needs assessment never returns \<open>general_support\<close>: for every
  input in which none of the four needs \<open>emotional_validation\<close>, \<open>information\<close>,
  \<open>coping_strategies\<close>, \<open>crisis_support\<close> fires, the result is \<open>empathy_and_support\<close>;
  and for every input whose lower-cased form contains \<open>feel\<close>, \<open>feeling\<close> or \<open>felt\<close>,
  \<open>empathy_and_support\<close> is added after whatever other needs fired.
\<close>

theorem assess_needs_amended:
  "assess_therapeutic_needs q \<noteq> ''general_support''
   \<and> (\<not> any_in emotion_words (lower q)
        \<and> \<not> (sublist ''?'' q \<or> any_in [''how'', ''what'', ''why'', ''when'', ''where''] (lower q))
        \<and> \<not> any_in [''help'', ''cope'', ''manage'', ''deal with''] (lower q)
        \<and> \<not> any_in crisis_indicators (lower q)
       \<longrightarrow> assess_therapeutic_needs q = ''empathy_and_support'')
   \<and> (any_in [''feel'', ''feeling'', ''felt''] (lower q)
       \<longrightarrow> (\<exists>others. set others \<subseteq> {''emotional_validation'', ''information'',
                                      ''coping_strategies'', ''crisis_support''}
                     \<and> assess_therapeutic_needs q
                         = join '', '' (others @ [''empathy_and_support''])))"
proof (intro conjI impI)
  show "assess_therapeutic_needs q \<noteq> ''general_support''"
    by (simp add: assess_needs_shape)
next
  assume "\<not> any_in emotion_words (lower q)
        \<and> \<not> (sublist ''?'' q \<or> any_in [''how'', ''what'', ''why'', ''when'', ''where''] (lower q))
        \<and> \<not> any_in [''help'', ''cope'', ''manage'', ''deal with''] (lower q)
        \<and> \<not> any_in crisis_indicators (lower q)"
  then show "assess_therapeutic_needs q = ''empathy_and_support''"
    by (simp add: assess_needs_shape)
next
  assume feel: "any_in [''feel'', ''feeling'', ''felt''] (lower q)"
  let ?others =
    "(if any_in emotion_words (lower q) then [''emotional_validation''] else [])
     @ (if sublist ''?'' q \<or> any_in [''how'', ''what'', ''why'', ''when'', ''where''] (lower q)
        then [''information''] else [])
     @ (if any_in [''help'', ''cope'', ''manage'', ''deal with''] (lower q)
        then [''coping_strategies''] else [])
     @ (if any_in crisis_indicators (lower q) then [''crisis_support''] else [])"
  have "set ?others \<subseteq> {''emotional_validation'', ''information'', ''coping_strategies'',
                          ''crisis_support''}"
    by auto
  moreover have "assess_therapeutic_needs q = join '', '' (?others @ [''empathy_and_support''])"
    using feel by (simp only: assess_needs_shape if_True simp_thms append_assoc)
  ultimately show "\<exists>others. set others \<subseteq> {''emotional_validation'', ''information'',
                                      ''coping_strategies'', ''crisis_support''}
                     \<and> assess_therapeutic_needs q
                         = join '', '' (others @ [''empathy_and_support''])"
    by blast
qed

theorem assess_needs_amended_witness:
  "any_in [''feel'', ''feeling'', ''felt''] (lower ''I feel sad, help?'')
   \<and> assess_therapeutic_needs ''I feel sad, help?''
       = ''emotional_validation, information, coping_strategies, empathy_and_support''
   \<and> assess_therapeutic_needs ''good morning'' = ''empathy_and_support''
   \<and> assess_therapeutic_needs ''I feel sad, help?'' \<noteq> ''general_support''"
proof -
  have a: "any_in [''feel'', ''feeling'', ''felt''] (lower ''I feel sad, help?'')"
    by code_simp
  have b: "assess_therapeutic_needs ''I feel sad, help?''
       = ''emotional_validation, information, coping_strategies, empathy_and_support''"
    by code_simp
  have c: "\<not> any_in emotion_words (lower ''good morning'')
        \<and> \<not> (sublist ''?'' ''good morning''
              \<or> any_in [''how'', ''what'', ''why'', ''when'', ''where''] (lower ''good morning''))
        \<and> \<not> any_in [''help'', ''cope'', ''manage'', ''deal with''] (lower ''good morning'')
        \<and> \<not> any_in crisis_indicators (lower ''good morning'')"
    by code_simp
  from assess_needs_amended [of "''good morning''"] c
  have d: "assess_therapeutic_needs ''good morning'' = ''empathy_and_support''"
    by blast
  from assess_needs_amended [of "''I feel sad, help?''"]
  have e: "assess_therapeutic_needs ''I feel sad, help?'' \<noteq> ''general_support''"
    by blast
  from a b d e show ?thesis by blast
qed

section \<open>Score ranges\<close>

lemma clamp_bounds: "0 \<le> max (0.0::real) (min 1.0 x) \<and> max (0.0::real) (min 1.0 x) \<le> 1"
  by simp

lemma evaluate_empathy_bounds:
  "0 \<le> evaluate_empathy q r \<and> evaluate_empathy q r \<le> 1"
  unfolding evaluate_empathy_def Let_def by (rule clamp_bounds)

lemma evaluate_relevance_bounds:
  "0 \<le> evaluate_relevance q r \<and> evaluate_relevance q r \<le> 1"
  unfolding evaluate_relevance_def Let_def by (rule clamp_bounds)

lemma evaluate_informativeness_bounds:
  "0 \<le> evaluate_informativeness r \<and> evaluate_informativeness r \<le> 1"
  unfolding evaluate_informativeness_def Let_def by (rule clamp_bounds)

lemma evaluate_safety_bounds:
  "0 \<le> evaluate_safety r ctx \<and> evaluate_safety r ctx \<le> 1"
  unfolding evaluate_safety_def Let_def by (rule clamp_bounds)

lemma evaluate_therapeutic_alliance_bounds:
  "0 \<le> evaluate_therapeutic_alliance r \<and> evaluate_therapeutic_alliance r \<le> 1"
  unfolding evaluate_therapeutic_alliance_def Let_def by (rule clamp_bounds)

lemma evaluate_clinical_accuracy_bounds:
  "0 \<le> evaluate_clinical_accuracy r \<and> evaluate_clinical_accuracy r \<le> 1"
  unfolding evaluate_clinical_accuracy_def Let_def by (rule clamp_bounds)

lemma score_trait_bounds: "0 \<le> score_trait text ind \<and> score_trait text ind \<le> 1"
  unfolding score_trait_def Let_def by (rule clamp_bounds)

text \<open>
  Claim C5. For every query, response text (the empty string included), evaluator
  configuration, context and analyzer configuration, each of the six sub-scores of
  \<open>evaluate_response\<close> and each of the five trait scores of \<open>analyze_response\<close> lies in
  the interval from 0 to 1.
\<close>

theorem scores_in_unit_interval:
  "0 \<le> empathy (evaluate_response ev q r ctx) \<and> empathy (evaluate_response ev q r ctx) \<le> 1
   \<and> 0 \<le> relevance (evaluate_response ev q r ctx)
   \<and> relevance (evaluate_response ev q r ctx) \<le> 1
   \<and> 0 \<le> informativeness (evaluate_response ev q r ctx)
   \<and> informativeness (evaluate_response ev q r ctx) \<le> 1
   \<and> 0 \<le> safety (evaluate_response ev q r ctx) \<and> safety (evaluate_response ev q r ctx) \<le> 1
   \<and> 0 \<le> therapeutic_alliance (evaluate_response ev q r ctx)
   \<and> therapeutic_alliance (evaluate_response ev q r ctx) \<le> 1
   \<and> 0 \<le> clinical_accuracy (evaluate_response ev q r ctx)
   \<and> clinical_accuracy (evaluate_response ev q r ctx) \<le> 1
   \<and> 0 \<le> agreeableness (analyze_response ta r) \<and> agreeableness (analyze_response ta r) \<le> 1
   \<and> 0 \<le> conscientiousness (analyze_response ta r)
   \<and> conscientiousness (analyze_response ta r) \<le> 1
   \<and> 0 \<le> emotional_stability (analyze_response ta r)
   \<and> emotional_stability (analyze_response ta r) \<le> 1
   \<and> 0 \<le> openness (analyze_response ta r) \<and> openness (analyze_response ta r) \<le> 1
   \<and> 0 \<le> extraversion (analyze_response ta r) \<and> extraversion (analyze_response ta r) \<le> 1"
proof -
  have e1: "0 \<le> empathy (evaluate_response ev q r ctx)
            \<and> empathy (evaluate_response ev q r ctx) \<le> 1"
    using evaluate_empathy_bounds [of q r]
    by (simp add: evaluate_response_def Let_def get_or_def)
  have e2: "0 \<le> relevance (evaluate_response ev q r ctx)
            \<and> relevance (evaluate_response ev q r ctx) \<le> 1"
    using evaluate_relevance_bounds [of q r]
    by (simp add: evaluate_response_def Let_def get_or_def)
  have e3: "0 \<le> informativeness (evaluate_response ev q r ctx)
            \<and> informativeness (evaluate_response ev q r ctx) \<le> 1"
    using evaluate_informativeness_bounds [of r]
    by (simp add: evaluate_response_def Let_def get_or_def)
  have e4: "0 \<le> safety (evaluate_response ev q r ctx)
            \<and> safety (evaluate_response ev q r ctx) \<le> 1"
    using evaluate_safety_bounds [of r ctx]
    by (simp add: evaluate_response_def Let_def get_or_def)
  have e5: "0 \<le> therapeutic_alliance (evaluate_response ev q r ctx)
            \<and> therapeutic_alliance (evaluate_response ev q r ctx) \<le> 1"
    using evaluate_therapeutic_alliance_bounds [of r]
    by (simp add: evaluate_response_def Let_def get_or_def)
  have e6: "0 \<le> clinical_accuracy (evaluate_response ev q r ctx)
            \<and> clinical_accuracy (evaluate_response ev q r ctx) \<le> 1"
    using evaluate_clinical_accuracy_bounds [of r]
    by (simp add: evaluate_response_def Let_def get_or_def)
  have t1: "0 \<le> agreeableness (analyze_response ta r)
            \<and> agreeableness (analyze_response ta r) \<le> 1"
    using score_trait_bounds [of "lower r" agreeableness_indicators]
    by (simp add: analyze_response_def Let_def get_or_def)
  have t2: "0 \<le> conscientiousness (analyze_response ta r)
            \<and> conscientiousness (analyze_response ta r) \<le> 1"
    using score_trait_bounds [of "lower r" conscientiousness_indicators]
    by (simp add: analyze_response_def Let_def get_or_def)
  have t3: "0 \<le> emotional_stability (analyze_response ta r)
            \<and> emotional_stability (analyze_response ta r) \<le> 1"
    using score_trait_bounds [of "lower r" emotional_stability_indicators]
    by (simp add: analyze_response_def Let_def get_or_def)
  have t4: "0 \<le> openness (analyze_response ta r) \<and> openness (analyze_response ta r) \<le> 1"
    using score_trait_bounds [of "lower r" openness_indicators]
    by (simp add: analyze_response_def Let_def get_or_def)
  have t5: "0 \<le> extraversion (analyze_response ta r)
            \<and> extraversion (analyze_response ta r) \<le> 1"
    using score_trait_bounds [of "lower r" extraversion_indicators]
    by (simp add: analyze_response_def Let_def get_or_def)
  from e1 e2 e3 e4 e5 e6 t1 t2 t3 t4 t5 show ?thesis by blast
qed

theorem scores_in_unit_interval_witness:
  "empathy (evaluate_response demo_evaluator [] [] None) = 1/2
   \<and> safety (evaluate_response demo_evaluator [] [] None) = 1
   \<and> informativeness (evaluate_response demo_evaluator [] [] None) = 2/5
   \<and> agreeableness (analyze_response demo_analyzer []) = 1/2
   \<and> 0 \<le> relevance (evaluate_response demo_evaluator [] [] None)
   \<and> relevance (evaluate_response demo_evaluator [] [] None) \<le> 1"
proof -
  have a: "empathy (evaluate_response demo_evaluator [] [] None) = 1/2"
    and b: "safety (evaluate_response demo_evaluator [] [] None) = 1"
    and c: "informativeness (evaluate_response demo_evaluator [] [] None) = 2/5"
    and d: "agreeableness (analyze_response demo_analyzer []) = 1/2"
    by code_simp+
  from scores_in_unit_interval [of demo_evaluator "[]" "[]" None demo_analyzer] a b c d
  show ?thesis by blast
qed

section \<open>The pipeline\<close>

lemma check_toxicity_log:
  "snd (check_toxicity sf text lg)
     = lg @ (if toxicity_model sf = None then [] else [Ev_toxicity text])"
  by (simp add: check_toxicity_def split: option.splits list.splits)

lemma check_toxicity_value:
  "fst (check_toxicity sf text lg) = fst (check_toxicity sf text [])"
  by (simp add: check_toxicity_def split: option.splits list.splits)

lemma check_input_shape:
  "\<exists>safe warning signals called.
     check_input sf text lg
       = ((safe, warning, signals),
          lg @ Ev_check_input text # (if called then [Ev_toxicity text] else []))
   \<and> fst (check_input sf text []) = (safe, warning, signals)
   \<and> (safe \<or> warning \<noteq> None)"
proof -
  have "fst (check_input sf text lg) = fst (check_input sf text [])"
    using check_toxicity_value [of sf "text" "lg @ [Ev_check_input text]"]
      check_toxicity_value [of sf "text" "[Ev_check_input text]"]
    by (simp add: check_input_def Let_def case_prod_beta)
  moreover have "\<exists>called. snd (check_input sf text lg)
      = lg @ Ev_check_input text # (if called then [Ev_toxicity text] else [])"
    by (auto simp: check_input_def Let_def case_prod_beta check_toxicity_log)
  moreover have "fst (fst (check_input sf text [])) \<or> fst (snd (fst (check_input sf text []))) \<noteq> None"
    by (simp add: check_input_def Let_def case_prod_beta)
  ultimately show ?thesis
    by (metis prod.collapse)
qed

lemma check_output_shape:
  "\<exists>safe replacement signals called.
     check_output sf text lg
       = ((safe, replacement, signals),
          lg @ Ev_check_output text # (if called then [Ev_toxicity text] else []))
   \<and> fst (check_output sf text []) = (safe, replacement, signals)
   \<and> (safe \<or> replacement \<noteq> None)
   \<and> (sf_enabled sf \<and> toxicity_model sf = None \<longrightarrow> safe \<and> \<not> called)"
proof -
  have "fst (check_output sf text lg) = fst (check_output sf text [])"
    using check_toxicity_value [of sf "text" "lg @ [Ev_check_output text]"]
      check_toxicity_value [of sf "text" "[Ev_check_output text]"]
    by (simp add: check_output_def Let_def case_prod_beta)
  moreover have "\<exists>called. snd (check_output sf text lg)
      = lg @ Ev_check_output text # (if called then [Ev_toxicity text] else [])
      \<and> (sf_enabled sf \<and> toxicity_model sf = None \<longrightarrow> \<not> called)"
    by (auto simp: check_output_def Let_def case_prod_beta check_toxicity_log)
  moreover have "fst (fst (check_output sf text [])) \<or> fst (snd (fst (check_output sf text []))) \<noteq> None"
    by (simp add: check_output_def Let_def case_prod_beta)
  moreover have "sf_enabled sf \<and> toxicity_model sf = None \<longrightarrow> fst (fst (check_output sf text []))"
    by (simp add: check_output_def Let_def case_prod_beta)
  ultimately show ?thesis
    by (metis prod.collapse)
qed

lemma reason_log:
  "\<exists>calls. snd (reason ag q c lg) = lg @ calls \<and> list_all is_generation calls"
proof (cases "agentic_enabled ag")
  case False
  then show ?thesis
    by (cases "model ag") (simp_all add: reason_def generate_call_eq is_generation_def)
next
  case True
  show ?thesis
  proof (cases "model ag")
    case None
    show ?thesis
      by (simp add: reason_without_model [OF True None] Let_def)
  next
    case (Some m)
    show ?thesis
      by (simp add: reason_with_model [OF True Some] Let_def is_generation_def)
  qed
qed

lemma generation_stage:
  "\<exists>resp trace calls.
     (if reas \<and> agentic_enabled ag
      then (let (reasoning_result, lg') = reason ag u context lg
            in (final_response reasoning_result, steps reasoning_result, lg'))
      else (let (r, lg') = generate_call m u context None lg in (r, [], lg')))
     = (resp, trace, lg @ calls)
   \<and> list_all is_generation calls"
proof (cases "reas \<and> agentic_enabled ag")
  case True
  obtain calls where "snd (reason ag u context lg) = lg @ calls" "list_all is_generation calls"
    using reason_log by blast
  with True show ?thesis
    by (simp add: case_prod_beta)
next
  case False
  then show ?thesis
    by (auto simp: generate_call_eq is_generation_def)
qed

lemma filter_generation_calls:
  assumes "list_all is_generation calls"
  shows "filter is_gate_call calls = [] \<and> filter is_turn calls = []"
  using assms
  by (induction calls)
     (auto simp: is_generation_def is_gate_call_def is_turn_def split: event.splits)

lemma generate_response_admitted:
  assumes "is_model_loaded p"
    and "fst (fst (check_input (safety_filter p) u []))"
  shows "\<exists>res evs resp trace context out_safe replacement out_sig final.
      generate_response p u rag reas det lg0
        = Inr (res, lg0 @ Ev_generate_response u det # evs)
    \<and> filter is_gate_call evs = [Ev_check_input u, Ev_check_output resp]
    \<and> filter is_turn evs = []
    \<and> fst (check_output (safety_filter p) resp []) = (out_safe, replacement, out_sig)
    \<and> (if out_safe then final = resp else replacement = Some final)
    \<and> res = \<lparr>r_response = Some (add_safety_prefix final), r_safe = out_safe,
              r_crisis_detected =
                (case crisis_detected (snd (snd (fst (check_input (safety_filter p) u [])))) of
                   None \<Rightarrow> False | Some b \<Rightarrow> b),
              r_details =
                (if det
                 then FullDetails
                   \<lparr>d_context_used = context, d_reasoning_steps = trace,
                    d_safety_checks =
                      merge_details (snd (snd (fst (check_input (safety_filter p) u []))))
                        out_sig,
                    d_evaluation =
                      Some (evaluate_response (evaluator p) u (add_safety_prefix final)
                              (Some \<lparr>safety_details =
                                       Some (merge_details
                                               (snd (snd (fst (check_input (safety_filter p)
                                                                 u []))))
                                               out_sig),
                                     ctx_reasoning_steps = trace\<rparr>)),
                    d_traits = Some (analyze_response (traits_analyzer p)
                                       (add_safety_prefix final)),
                    d_therapeutic_profile =
                      Some (therapeutic_profile
                              (analyze_response (traits_analyzer p)
                                 (add_safety_prefix final)))\<rparr>
                 else DetailsAbsent)\<rparr>"
proof -
  let ?sf = "safety_filter p"
  let ?lg = "lg0 @ [Ev_generate_response u det]"
  obtain in_safe warning in_sig called1 where
    ci: "check_input ?sf u ?lg
           = ((in_safe, warning, in_sig),
              ?lg @ Ev_check_input u # (if called1 then [Ev_toxicity u] else []))"
    and ci0: "fst (check_input ?sf u []) = (in_safe, warning, in_sig)"
    using check_input_shape [of ?sf u ?lg] by blast
  from assms(2) ci0 have in_safe: "in_safe = True" by simp
  define lg1 where "lg1 = ?lg @ Ev_check_input u # (if called1 then [Ev_toxicity u] else [])"
  define ctx where
    "ctx = (if rag \<and> retrieval_enabled p then Some (rag_retrieve p u) else None)"
  define lg2 where "lg2 = (if rag \<and> retrieval_enabled p then lg1 @ [Ev_retrieve u] else lg1)"
  have ci': "check_input ?sf u ?lg = ((True, warning, in_sig), lg1)"
    using ci in_safe by (simp add: lg1_def)
  have pair: "(if rag \<and> retrieval_enabled p
               then (Some (rag_retrieve p u), lg1 @ [Ev_retrieve u]) else (None, lg1))
              = (ctx, lg2)"
    by (simp add: ctx_def lg2_def)
  obtain resp trace calls where
    gen: "(if reas \<and> agentic_enabled (reasoning_agent p)
           then (let (reasoning_result, lg') = reason (reasoning_agent p) u ctx lg2
                 in (final_response reasoning_result, steps reasoning_result, lg'))
           else (let (r, lg') = generate_call (pipeline_model p) u ctx None lg2
                 in (r, [], lg')))
          = (resp, trace, lg2 @ calls)"
    and calls: "list_all is_generation calls"
    using generation_stage [of reas "reasoning_agent p" u ctx lg2 "pipeline_model p"]
    by blast
  obtain out_safe replacement out_sig called2 where
    co: "check_output ?sf resp (lg2 @ calls)
           = ((out_safe, replacement, out_sig),
              (lg2 @ calls) @ Ev_check_output resp
                # (if called2 then [Ev_toxicity resp] else []))"
    and co0: "fst (check_output ?sf resp []) = (out_safe, replacement, out_sig)"
    and rep: "out_safe \<or> replacement \<noteq> None"
    using check_output_shape [of ?sf resp "lg2 @ calls"] by blast
  obtain final where final: "if out_safe then final = resp else replacement = Some final"
    using rep by (cases out_safe) auto
  have sel: "(if \<not> out_safe then replacement else Some resp) = Some final"
    using final by (cases out_safe) simp_all
  let ?evs = "Ev_check_input u # (if called1 then [Ev_toxicity u] else [])
              @ (if rag \<and> retrieval_enabled p then [Ev_retrieve u] else [])
              @ calls @ Ev_check_output resp # (if called2 then [Ev_toxicity resp] else [])"
  have lg4: "(lg2 @ calls) @ Ev_check_output resp # (if called2 then [Ev_toxicity resp] else [])
             = lg0 @ Ev_generate_response u det # ?evs"
    by (simp add: lg2_def lg1_def)
  have run: "generate_response p u rag reas det lg0
      = Inr (\<lparr>r_response = Some (add_safety_prefix final), r_safe = out_safe,
              r_crisis_detected = (case crisis_detected in_sig of None \<Rightarrow> False | Some b \<Rightarrow> b),
              r_details =
                (if det
                 then FullDetails
                   \<lparr>d_context_used = ctx, d_reasoning_steps = trace,
                    d_safety_checks = merge_details in_sig out_sig,
                    d_evaluation =
                      Some (evaluate_response (evaluator p) u (add_safety_prefix final)
                              (Some \<lparr>safety_details = Some (merge_details in_sig out_sig),
                                     ctx_reasoning_steps = trace\<rparr>)),
                    d_traits = Some (analyze_response (traits_analyzer p)
                                       (add_safety_prefix final)),
                    d_therapeutic_profile =
                      Some (therapeutic_profile
                              (analyze_response (traits_analyzer p)
                                 (add_safety_prefix final)))\<rparr>
                 else DetailsAbsent)\<rparr>,
             lg0 @ Ev_generate_response u det # ?evs)"
    unfolding generate_response_def
    apply (simp only: Let_def assms(1) not_True_eq_False not_False_eq_True if_False if_True
             ci' prod.case pair)
    apply (simp only: gen [unfolded Let_def] prod.case co sel option.case lg4)
    apply (cases det)
     apply simp_all
    done
  have g: "filter is_gate_call ?evs = [Ev_check_input u, Ev_check_output resp]"
    and t: "filter is_turn ?evs = []"
    using filter_generation_calls [OF calls]
    by (simp_all add: is_gate_call_def is_turn_def)
  from ci0 have sig: "snd (snd (fst (check_input ?sf u []))) = in_sig" by simp
  show ?thesis
    using run g t co0 final unfolding sig by blast
qed

lemma generate_response_blocked:
  assumes "is_model_loaded p"
    and "\<not> fst (fst (check_input (safety_filter p) u []))"
  shows "\<exists>warning called.
      generate_response p u rag reas det lg0
        = Inr (\<lparr>r_response = Some warning, r_safe = False, r_crisis_detected = True,
                r_details =
                  (if det
                   then SafetyDetails (snd (snd (fst (check_input (safety_filter p) u []))))
                   else DetailsNone)\<rparr>,
               lg0 @ Ev_generate_response u det
                 # Ev_check_input u # (if called then [Ev_toxicity u] else []))"
proof -
  let ?sf = "safety_filter p"
  let ?lg = "lg0 @ [Ev_generate_response u det]"
  obtain in_safe warning in_sig called where
    ci: "check_input ?sf u ?lg
           = ((in_safe, warning, in_sig),
              ?lg @ Ev_check_input u # (if called then [Ev_toxicity u] else []))"
    and ci0: "fst (check_input ?sf u []) = (in_safe, warning, in_sig)"
    and w: "in_safe \<or> warning \<noteq> None"
    using check_input_shape [of ?sf u ?lg] by blast
  from assms(2) ci0 have in_safe: "\<not> in_safe" by simp
  with w obtain msg where msg: "warning = Some msg" by auto
  from ci0 have sig: "snd (snd (fst (check_input ?sf u []))) = in_sig" by simp
  have "generate_response p u rag reas det lg0
        = Inr (\<lparr>r_response = Some msg, r_safe = False, r_crisis_detected = True,
                r_details = (if det then SafetyDetails in_sig else DetailsNone)\<rparr>,
               lg0 @ Ev_generate_response u det
                 # Ev_check_input u # (if called then [Ev_toxicity u] else []))"
    unfolding generate_response_def
    using assms(1) in_safe msg
    by (simp add: Let_def ci)
  then show ?thesis
    unfolding sig by blast
qed

text \<open>
  Claim C2 says that \<open>crisis_detected\<close> of the pipeline result is the input gate's
  signal. On the path of a blocked input the result holds the constant \<open>True\<close>
  instead, whereas the path of an admitted input reads the signal: the input
  \<open>you idiot\<close> matches no crisis pattern and no keyword, is blocked for its toxicity
  score alone with the signal \<open>crisis_detected = False\<close>, and the result reports
  \<open>crisis_detected = True\<close>.
\<close>

theorem toxic_block_reports_crisis:
  "(case generate_response demo_pipeline ''you idiot'' True True True [] of
      Inl e \<Rightarrow> False
    | Inr (res, lg) \<Rightarrow>
        r_crisis_detected res = True \<and> r_safe res = False
        \<and> r_response res = Some toxic_input_message
        \<and> r_details res
            = SafetyDetails \<lparr>crisis_detected = Some False, crisis_type = Some None,
                             toxicity_score = Some 0.9, medical_advice_flag = None\<rparr>)
   \<and> fst (detect_crisis demo_filter ''you idiot'') = False"
  by code_simp

text \<open>
  Claim C3. For every turn whose input is admitted (the model being loaded), the turn
  returns a result; its \<open>safe\<close> flag is input-admitted and output-admitted; the gate is
  called exactly twice, on the input and on the generated response, so a substituted
  response is never checked; when the output gate blocks, its replacement message is the
  response that receives the disclaimer and, when details are requested, the one that is
  evaluated (with the merged signals) and analysed for traits.
\<close>

theorem output_gate_substitution:
  assumes "is_model_loaded p" and "fst (fst (check_input (safety_filter p) u []))"
  shows "\<exists>res lg' resp out_safe replacement out_sig final.
      generate_response p u rag reas det lg0 = Inr (res, lg')
    \<and> filter is_gate_call (drop (length lg0) lg') = [Ev_check_input u, Ev_check_output resp]
    \<and> fst (check_output (safety_filter p) resp []) = (out_safe, replacement, out_sig)
    \<and> r_safe res = (fst (fst (check_input (safety_filter p) u [])) \<and> out_safe)
    \<and> (if out_safe then final = resp else replacement = Some final)
    \<and> r_response res = Some (add_safety_prefix final)
    \<and> (if det
        then \<exists>fd. r_details res = FullDetails fd
               \<and> d_safety_checks fd
                   = merge_details (snd (snd (fst (check_input (safety_filter p) u []))))
                       out_sig
               \<and> d_evaluation fd
                   = Some (evaluate_response (evaluator p) u (add_safety_prefix final)
                             (Some \<lparr>safety_details = Some (d_safety_checks fd),
                                    ctx_reasoning_steps = d_reasoning_steps fd\<rparr>))
               \<and> d_traits fd
                   = Some (analyze_response (traits_analyzer p) (add_safety_prefix final))
        else r_details res = DetailsAbsent)"
proof -
  obtain res evs resp trace cx out_safe replacement out_sig final where
    run: "generate_response p u rag reas det lg0
            = Inr (res, lg0 @ Ev_generate_response u det # evs)"
    and gate: "filter is_gate_call evs = [Ev_check_input u, Ev_check_output resp]"
    and out: "fst (check_output (safety_filter p) resp []) = (out_safe, replacement, out_sig)"
    and final: "if out_safe then final = resp else replacement = Some final"
    and res: "res = \<lparr>r_response = Some (add_safety_prefix final), r_safe = out_safe,
              r_crisis_detected =
                (case crisis_detected (snd (snd (fst (check_input (safety_filter p) u [])))) of
                   None \<Rightarrow> False | Some b \<Rightarrow> b),
              r_details =
                (if det
                 then FullDetails
                   \<lparr>d_context_used = cx, d_reasoning_steps = trace,
                    d_safety_checks =
                      merge_details (snd (snd (fst (check_input (safety_filter p) u []))))
                        out_sig,
                    d_evaluation =
                      Some (evaluate_response (evaluator p) u (add_safety_prefix final)
                              (Some \<lparr>safety_details =
                                       Some (merge_details
                                               (snd (snd (fst (check_input (safety_filter p)
                                                                 u []))))
                                               out_sig),
                                     ctx_reasoning_steps = trace\<rparr>)),
                    d_traits = Some (analyze_response (traits_analyzer p)
                                       (add_safety_prefix final)),
                    d_therapeutic_profile =
                      Some (therapeutic_profile
                              (analyze_response (traits_analyzer p)
                                 (add_safety_prefix final)))\<rparr>
                 else DetailsAbsent)\<rparr>"
    using generate_response_admitted [OF assms, of rag reas det lg0] by blast
  have log: "filter is_gate_call (drop (length lg0) (lg0 @ Ev_generate_response u det # evs))
               = [Ev_check_input u, Ev_check_output resp]"
    using gate by (simp add: is_gate_call_def)
  have safe: "r_safe res = (fst (fst (check_input (safety_filter p) u [])) \<and> out_safe)"
    using assms(2) res by simp
  have resp: "r_response res = Some (add_safety_prefix final)"
    using res by simp
  have det: "(if det
        then \<exists>fd. r_details res = FullDetails fd
               \<and> d_safety_checks fd
                   = merge_details (snd (snd (fst (check_input (safety_filter p) u []))))
                       out_sig
               \<and> d_evaluation fd
                   = Some (evaluate_response (evaluator p) u (add_safety_prefix final)
                             (Some \<lparr>safety_details = Some (d_safety_checks fd),
                                    ctx_reasoning_steps = d_reasoning_steps fd\<rparr>))
               \<and> d_traits fd
                   = Some (analyze_response (traits_analyzer p) (add_safety_prefix final))
        else r_details res = DetailsAbsent)"
    using res by simp
  from run log out safe final resp det show ?thesis by blast
qed

theorem output_gate_substitution_witness:
  "is_model_loaded rude_pipeline
   \<and> fst (fst (check_input (safety_filter rude_pipeline) ''hello'' []))
   \<and> (\<exists>res lg'. generate_response rude_pipeline ''hello'' True True True [] = Inr (res, lg'))
   \<and> (case generate_response rude_pipeline ''hello'' True True True [] of
         Inl e \<Rightarrow> False
       | Inr (res, lg') \<Rightarrow>
           r_safe res = False
           \<and> r_response res = Some (safety_prefix @ toxic_output_message)
           \<and> filter is_gate_call lg' = [Ev_check_input ''hello'', Ev_check_output ''You idiot.''])"
proof -
  have h1: "is_model_loaded rude_pipeline"
    by (simp add: rude_pipeline_def demo_pipeline_def)
  have h2: "fst (fst (check_input (safety_filter rude_pipeline) ''hello'' []))"
    by code_simp
  have v: "(case generate_response rude_pipeline ''hello'' True True True [] of
         Inl e \<Rightarrow> False
       | Inr (res, lg') \<Rightarrow>
           r_safe res = False
           \<and> r_response res = Some (safety_prefix @ toxic_output_message)
           \<and> filter is_gate_call lg' = [Ev_check_input ''hello'', Ev_check_output ''You idiot.''])"
    by code_simp
  from output_gate_substitution [OF h1 h2, of True True True "[]"]
  have "\<exists>res lg'. generate_response rude_pipeline ''hello'' True True True [] = Inr (res, lg')"
    by blast
  with h1 h2 v show ?thesis by blast
qed


text \<open>
  Claim C10. With the gate enabled and no toxicity classifier loaded, \<open>check_output\<close>
  admits every text, with no replacement, no toxicity score and no classifier call (a
  medical red flag is only recorded in the signals); and every turn of a loaded pipeline
  with such a gate returns a result whose \<open>safe\<close> flag is the verdict of the input check.
\<close>

theorem output_gate_never_vetoes_without_classifier:
  assumes "sf_enabled sf" and "toxicity_model sf = None"
  shows "(\<exists>signals. check_output sf txt lg = ((True, None, signals), lg @ [Ev_check_output txt])
            \<and> toxicity_score signals = None \<and> crisis_detected signals = None)
       \<and> (\<forall>p. safety_filter p = sf \<and> is_model_loaded p
            \<longrightarrow> (\<exists>res lg'. generate_response p u rag reas det lg0 = Inr (res, lg')
                    \<and> r_safe res = fst (fst (check_input sf u []))))"
proof (intro conjI allI impI)
  have keeps: "toxicity_score (fold (\<lambda>flag d. if sublist flag t
                                       then d\<lparr>medical_advice_flag := Some flag\<rparr> else d)
                            flags d0) = toxicity_score d0
             \<and> crisis_detected (fold (\<lambda>flag d. if sublist flag t
                                       then d\<lparr>medical_advice_flag := Some flag\<rparr> else d)
                            flags d0) = crisis_detected d0" for t flags d0
    by (induction flags arbitrary: d0) simp_all
  show "\<exists>signals. check_output sf txt lg = ((True, None, signals), lg @ [Ev_check_output txt])
            \<and> toxicity_score signals = None \<and> crisis_detected signals = None"
    using assms by (simp add: check_output_def Let_def keeps empty_details_def)
next
  fix p :: CoTherapistPipeline
  assume p: "safety_filter p = sf \<and> is_model_loaded p"
  show "\<exists>res lg'. generate_response p u rag reas det lg0 = Inr (res, lg')
                    \<and> r_safe res = fst (fst (check_input sf u []))"
  proof (cases "fst (fst (check_input sf u []))")
    case True
    with p have adm: "fst (fst (check_input (safety_filter p) u []))" by simp
    from p have loaded: "is_model_loaded p" by simp
    obtain res evs resp out_safe replacement out_sig where
      run: "generate_response p u rag reas det lg0
              = Inr (res, lg0 @ Ev_generate_response u det # evs)"
      and out: "fst (check_output (safety_filter p) resp []) = (out_safe, replacement, out_sig)"
      and safe: "r_safe res = out_safe"
      using generate_response_admitted [OF loaded adm, of rag reas det lg0] by force
    from check_output_shape [of sf resp "[]"] assms out p have "out_safe" by auto
    with run safe True show ?thesis by simp
  next
    case False
    with p have blk: "\<not> fst (fst (check_input (safety_filter p) u []))" by simp
    from p have loaded: "is_model_loaded p" by simp
    from generate_response_blocked [OF loaded blk, of rag reas det lg0] False
    show ?thesis by auto
  qed
qed

theorem output_gate_never_vetoes_without_classifier_witness:
  "sf_enabled plain_filter \<and> toxicity_model plain_filter = None
   \<and> fst (check_output plain_filter ''You have a diagnosis, idiot.'' [])
       = (True, None, \<lparr>crisis_detected = None, crisis_type = None, toxicity_score = None,
                        medical_advice_flag = Some ''you have''\<rparr>)
   \<and> (\<exists>res lg'. generate_response plain_pipeline ''hello'' True True True [] = Inr (res, lg')
          \<and> r_safe res = True)"
proof -
  have h1: "sf_enabled plain_filter" and h2: "toxicity_model plain_filter = None"
    by (simp_all add: plain_filter_def demo_filter_def)
  have p: "safety_filter plain_pipeline = plain_filter \<and> is_model_loaded plain_pipeline"
    by (simp add: plain_pipeline_def rude_pipeline_def demo_pipeline_def)
  have a: "fst (fst (check_input plain_filter ''hello'' [])) = True"
    by code_simp
  have v: "fst (check_output plain_filter ''You have a diagnosis, idiot.'' [])
       = (True, None, \<lparr>crisis_detected = None, crisis_type = None, toxicity_score = None,
                        medical_advice_flag = Some ''you have''\<rparr>)"
    by code_simp
  from output_gate_never_vetoes_without_classifier
         [OF h1 h2, of "''x''" "[]" "''hello''" True True True "[]"] p a
  have "\<exists>res lg'. generate_response plain_pipeline ''hello'' True True True [] = Inr (res, lg')
          \<and> r_safe res = True"
    by auto
  with h1 h2 v show ?thesis by blast
qed

lemma generate_response_total:
  assumes "is_model_loaded p"
  shows "\<exists>res evs.
      generate_response p u rag reas det lg0
        = Inr (res, lg0 @ Ev_generate_response u det # evs)
    \<and> filter is_turn evs = []
    \<and> r_response res \<noteq> None
    \<and> (if fst (fst (check_input (safety_filter p) u []))
        then if det then \<exists>fd. r_details res = FullDetails fd \<and> d_traits fd \<noteq> None
             else r_details res = DetailsAbsent
        else if det then \<exists>d. r_details res = SafetyDetails d
             else r_details res = DetailsNone)"
proof (cases "fst (fst (check_input (safety_filter p) u []))")
  case True
  from generate_response_admitted [OF assms True, of rag reas det lg0]
  obtain res evs final cx trace sc ev tr pr out_safe where
    "generate_response p u rag reas det lg0
       = Inr (res, lg0 @ Ev_generate_response u det # evs)"
    "filter is_turn evs = []"
    "res = \<lparr>r_response = Some (add_safety_prefix final), r_safe = out_safe,
            r_crisis_detected =
              (case crisis_detected (snd (snd (fst (check_input (safety_filter p) u [])))) of
                 None \<Rightarrow> False | Some b \<Rightarrow> b),
            r_details =
              (if det
               then FullDetails
                      \<lparr>d_context_used = cx, d_reasoning_steps = trace, d_safety_checks = sc,
                       d_evaluation = ev, d_traits = Some tr, d_therapeutic_profile = pr\<rparr>
               else DetailsAbsent)\<rparr>"
    by blast
  with True show ?thesis by (cases det) simp_all
next
  case False
  from generate_response_blocked [OF assms False, of rag reas det lg0]
  obtain warning called where
    "generate_response p u rag reas det lg0
        = Inr (\<lparr>r_response = Some warning, r_safe = False, r_crisis_detected = True,
                r_details =
                  (if det
                   then SafetyDetails (snd (snd (fst (check_input (safety_filter p) u []))))
                   else DetailsNone)\<rparr>,
               lg0 @ Ev_generate_response u det
                 # Ev_check_input u # (if called then [Ev_toxicity u] else []))"
    by blast
  with False show ?thesis by (cases det) (simp_all add: is_turn_def)
qed

lemma reason_result_log_independent:
  "fst (reason ag q c lg) = fst (reason ag q c [])"
proof (cases "agentic_enabled ag")
  case False
  then show ?thesis
    by (cases "model ag") (simp_all add: reason_def generate_call_eq)
next
  case True
  show ?thesis
  proof (cases "model ag")
    case None
    show ?thesis
      by (simp add: reason_without_model [OF True None] Let_def)
  next
    case (Some m)
    show ?thesis
      by (simp add: reason_with_model [OF True Some] Let_def)
  qed
qed

lemma check_input_verdict_log_independent:
  "fst (check_input sf u lg) = fst (check_input sf u [])"
  using check_input_shape [of sf u lg] by auto

lemma check_output_verdict_log_independent:
  "fst (check_output sf u lg) = fst (check_output sf u [])"
  using check_output_shape [of sf u lg] by auto

lemma generate_response_log_independent:
  "map_sum id fst (generate_response p u rag reas det lg)
     = map_sum id fst (generate_response p u rag reas det [])"
proof -
  define CI where "CI = fst (check_input (safety_filter p) u [])"
  define CO where "CO = (\<lambda>t. fst (check_output (safety_filter p) t []))"
  define RE where "RE = (\<lambda>c. fst (reason (reasoning_agent p) u c []))"
  have ci: "fst (check_input (safety_filter p) u X) = CI" for X
    unfolding CI_def by (rule check_input_verdict_log_independent)
  have co: "fst (check_output (safety_filter p) t X) = CO t" for t X
    unfolding CO_def by (rule check_output_verdict_log_independent)
  have re: "fst (reason (reasoning_agent p) u c X) = RE c" for c X
    unfolding RE_def by (rule reason_result_log_independent)
  define A where "A \<longleftrightarrow> rag \<and> retrieval_enabled p"
  define B where "B \<longleftrightarrow> reas \<and> agentic_enabled (reasoning_agent p)"
  have a: "(rag \<and> retrieval_enabled p) = A" and b: "(reas \<and> agentic_enabled (reasoning_agent p)) = B"
    by (simp_all add: A_def B_def)
  show ?thesis
    unfolding generate_response_def Let_def case_prod_beta a b
    by (cases A; cases B; cases "is_model_loaded p"; cases "fst CI")
       (simp_all add: ci co re generate_call_eq split: option.splits)
qed

lemma turn_response_eq:
  assumes "generate_response p u True True det lg = Inr (res, lg')"
  shows "turn_response p u det = r_response res"
proof -
  from generate_response_log_independent [of p u True True det lg] assms
  have "map_sum id fst (generate_response p u True True det []) = Inr res"
    by simp
  then show ?thesis
    by (cases "generate_response p u True True det []") (auto simp: turn_response_def)
qed

lemma dataset_loop_admitted:
  assumes "is_model_loaded p"
    and "\<forall>ex \<in> set data. fst (fst (check_input (safety_filter p) (user ex) []))"
  shows "\<exists>evs trs new.
      dataset_loop p data evaluations all_traits lg
        = Inr (evaluations @ evs, all_traits @ trs, lg @ new)
    \<and> length evs = length data \<and> length trs = length data
    \<and> list_all (\<lambda>e. e_response e \<noteq> None) evs
    \<and> map e_query evs = map user data
    \<and> map e_response evs = map (\<lambda>ex. turn_response p (user ex) True) data
    \<and> filter is_turn new = map (\<lambda>ex. Ev_generate_response (user ex) True) data"
  using assms(2)
proof (induction data arbitrary: evaluations all_traits lg)
  case Nil
  show ?case by simp
next
  case (Cons ex rest)
  from Cons.prems have adm: "fst (fst (check_input (safety_filter p) (user ex) []))"
    and rest: "\<forall>ex \<in> set rest. fst (fst (check_input (safety_filter p) (user ex) []))"
    by simp_all
  from generate_response_total [OF assms(1), of "user ex" True True True lg] adm
  obtain res evs1 fd t where
    run: "generate_response p (user ex) True True True lg
            = Inr (res, lg @ Ev_generate_response (user ex) True # evs1)"
    and turn1: "filter is_turn evs1 = []"
    and resp: "r_response res \<noteq> None"
    and det: "r_details res = FullDetails fd" "d_traits fd = Some t"
    by auto
  from turn_response_eq [OF run] have first: "turn_response p (user ex) True = r_response res" .
  let ?entry = "\<lparr>e_query = user ex, e_response = r_response res,
                  e_context = Some \<lparr>safety_details = None,
                                    ctx_reasoning_steps = d_reasoning_steps fd\<rparr>\<rparr>"
  from Cons.IH [OF rest, of "evaluations @ [?entry]" "all_traits @ [t]"
                  "lg @ Ev_generate_response (user ex) True # evs1"]
  obtain evs trs new where
    loop: "dataset_loop p rest (evaluations @ [?entry]) (all_traits @ [t])
             (lg @ Ev_generate_response (user ex) True # evs1)
           = Inr ((evaluations @ [?entry]) @ evs, (all_traits @ [t]) @ trs,
                  (lg @ Ev_generate_response (user ex) True # evs1) @ new)"
    and len: "length evs = length rest" "length trs = length rest"
    and some: "list_all (\<lambda>e. e_response e \<noteq> None) evs"
    and queries: "map e_query evs = map user rest"
    and responses: "map e_response evs = map (\<lambda>ex. turn_response p (user ex) True) rest"
    and turns: "filter is_turn new = map (\<lambda>ex. Ev_generate_response (user ex) True) rest"
    by blast
  have "dataset_loop p (ex # rest) evaluations all_traits lg
          = Inr (evaluations @ (?entry # evs), all_traits @ (t # trs),
                 lg @ (Ev_generate_response (user ex) True # evs1 @ new))"
    using run det loop by simp
  moreover have "filter is_turn (Ev_generate_response (user ex) True # evs1 @ new)
                   = map (\<lambda>ex. Ev_generate_response (user ex) True) (ex # rest)"
    using turn1 turns by (simp add: is_turn_def)
  moreover have "list_all (\<lambda>e. e_response e \<noteq> None) (?entry # evs)"
    using resp some by simp
  moreover have "length (?entry # evs) = length (ex # rest)"
    and "length (t # trs) = length (ex # rest)"
    using len by simp_all
  moreover have "map e_query (?entry # evs) = map user (ex # rest)"
    using queries by simp
  moreover have "map e_response (?entry # evs)
                   = map (\<lambda>ex. turn_response p (user ex) True) (ex # rest)"
    using responses first by simp
  ultimately show ?case by blast
qed

lemma regenerate_total:
  assumes "is_model_loaded p"
  shows "\<exists>responses new.
      regenerate p data lg = Inr (responses, lg @ new)
    \<and> length responses = length data
    \<and> list_all (\<lambda>r. r \<noteq> None) responses
    \<and> responses = map (\<lambda>ex. turn_response p (user ex) False) data
    \<and> filter is_turn new = map (\<lambda>ex. Ev_generate_response (user ex) False) data"
proof (induction data arbitrary: lg)
  case Nil
  show ?case by simp
next
  case (Cons ex rest)
  from generate_response_total [OF assms, of "user ex" True True False lg]
  obtain res evs1 where
    run: "generate_response p (user ex) True True False lg
            = Inr (res, lg @ Ev_generate_response (user ex) False # evs1)"
    and turn1: "filter is_turn evs1 = []"
    and resp: "r_response res \<noteq> None"
    by blast
  from turn_response_eq [OF run] have second: "turn_response p (user ex) False = r_response res" .
  from Cons.IH [of "lg @ Ev_generate_response (user ex) False # evs1"]
  obtain responses new where
    loop: "regenerate p rest (lg @ Ev_generate_response (user ex) False # evs1)
             = Inr (responses, (lg @ Ev_generate_response (user ex) False # evs1) @ new)"
    and len: "length responses = length rest"
    and some: "list_all (\<lambda>r. r \<noteq> None) responses"
    and vals: "responses = map (\<lambda>ex. turn_response p (user ex) False) rest"
    and turns: "filter is_turn new = map (\<lambda>ex. Ev_generate_response (user ex) False) rest"
    by blast
  have "regenerate p (ex # rest) lg
          = Inr (r_response res # responses,
                 lg @ (Ev_generate_response (user ex) False # evs1 @ new))"
    using run loop by simp
  moreover have "filter is_turn (Ev_generate_response (user ex) False # evs1 @ new)
                   = map (\<lambda>ex. Ev_generate_response (user ex) False) (ex # rest)"
    using turn1 turns by (simp add: is_turn_def)
  moreover have "list_all (\<lambda>r. r \<noteq> None) (r_response res # responses)"
    using resp some by simp
  moreover have "length (r_response res # responses) = length (ex # rest)"
    using len by simp
  moreover have "r_response res # responses
                   = map (\<lambda>ex. turn_response p (user ex) False) (ex # rest)"
    using vals second by simp
  ultimately show ?case
    by (intro exI [of _ "r_response res # responses"]
          exI [of _ "Ev_generate_response (user ex) False # evs1 @ new"]) simp
qed

lemma collect_all_values:
  assumes "list_all (\<lambda>x. \<not> isl x) xs"
  shows "\<exists>vs. collect xs = Inr vs \<and> length vs = length xs"
  using assms
proof (induction xs)
  case Nil
  show ?case by simp
next
  case (Cons x xs)
  then obtain v vs where "x = Inr v" and "collect xs = Inr vs" and "length vs = length xs"
    by (cases x) auto
  then show ?case by simp
qed

lemma named_stat_returns: "values \<noteq> [] \<Longrightarrow> \<not> isl (named_stat name values)"
  by (simp add: named_stat_def np_stats_def Let_def)

lemma batch_evaluate_returns:
  assumes "evaluations \<noteq> []" and "list_all (\<lambda>e. e_response e \<noteq> None) evaluations"
  shows "\<exists>stats. batch_evaluate ev evaluations = Inr stats"
proof -
  have "list_all (\<lambda>x. \<not> isl x)
          (map (\<lambda>eval_dict. evaluate_response_opt ev (e_query eval_dict)
                               (e_response eval_dict) (e_context eval_dict)) evaluations)"
    using assms(2)
    by (induction evaluations) (auto simp: evaluate_response_opt_def)
  from collect_all_values [OF this] obtain all_scores where
    scores: "collect (map (\<lambda>eval_dict. evaluate_response_opt ev (e_query eval_dict)
                               (e_response eval_dict) (e_context eval_dict)) evaluations)
             = Inr all_scores"
    and len: "length all_scores = length evaluations"
    by auto
  from len assms(1) have ne: "all_scores \<noteq> []" by auto
  have "list_all (\<lambda>x. \<not> isl x)
          (map (\<lambda>(metric, getattr). named_stat metric (map getattr all_scores)) ms)" for ms
    using ne by (induction ms) (simp_all add: case_prod_beta named_stat_returns)
  from collect_all_values [OF this]
  have every: "\<exists>vs. collect (map (\<lambda>(metric, getattr).
                                    named_stat metric (map getattr all_scores)) ms) = Inr vs"
    for ms by blast
  show ?thesis
    unfolding batch_evaluate_def scores sum.case
    using every by blast
qed

lemma batch_analyze_returns:
  assumes "responses \<noteq> []" and "list_all (\<lambda>r. r \<noteq> None) responses"
  shows "\<exists>stats. batch_analyze ta responses = Inr stats"
proof -
  have "list_all (\<lambda>x. \<not> isl x) (map (analyze_response_opt ta) responses)"
    using assms(2)
    by (induction responses) (auto simp: analyze_response_opt_def)
  from collect_all_values [OF this] obtain all_scores where
    scores: "collect (map (analyze_response_opt ta) responses) = Inr all_scores"
    and len: "length all_scores = length responses"
    by auto
  from len assms(1) have ne: "all_scores \<noteq> []" by auto
  have "list_all (\<lambda>x. \<not> isl x)
          (map (\<lambda>(trait, titled, getattr). named_stat trait (map getattr all_scores)) ts)"
    for ts
    using ne by (induction ts) (simp_all add: case_prod_beta named_stat_returns)
  from collect_all_values [OF this]
  have every: "\<exists>vs. collect (map (\<lambda>(trait, titled, getattr).
                                    named_stat trait (map getattr all_scores)) ts) = Inr vs"
    for ts by blast
  show ?thesis
    unfolding batch_analyze_def scores sum.case
    using every by blast
qed

lemma evaluate_dataset_runs:
  assumes "is_model_loaded p" and "test_data \<noteq> []"
    and "\<forall>ex \<in> set test_data. fst (fst (check_input (safety_filter p) (user ex) []))"
  shows "\<exists>result new responses lg1 trait_stats evaluations all_traits eval_stats.
      evaluate_dataset p test_data lg = Inr (result, lg @ new)
    \<and> filter is_turn new
        = map (\<lambda>ex. Ev_generate_response (user ex) True) test_data
          @ map (\<lambda>ex. Ev_generate_response (user ex) False) test_data
    \<and> regenerate p test_data lg1 = Inr (responses, lg @ new)
    \<and> batch_analyze (traits_analyzer p) responses = Inr trait_stats
    \<and> ds_traits result = Some trait_stats
    \<and> num_examples result = length test_data
    \<and> dataset_loop p test_data [] [] lg = Inr (evaluations, all_traits, lg1)
    \<and> map e_query evaluations = map user test_data
    \<and> map e_response evaluations = map (\<lambda>ex. turn_response p (user ex) True) test_data
    \<and> batch_evaluate (evaluator p) evaluations = Inr eval_stats
    \<and> ds_evaluation result = eval_stats
    \<and> responses = map (\<lambda>ex. turn_response p (user ex) False) test_data"
proof -
  from dataset_loop_admitted [OF assms(1,3), of "[]" "[]" lg]
  obtain evs trs new1 where
    loop: "dataset_loop p test_data [] [] lg = Inr (evs, trs, lg @ new1)"
    and len: "length evs = length test_data" "length trs = length test_data"
    and some: "list_all (\<lambda>e. e_response e \<noteq> None) evs"
    and queries: "map e_query evs = map user test_data"
    and firsts: "map e_response evs = map (\<lambda>ex. turn_response p (user ex) True) test_data"
    and turns1: "filter is_turn new1 = map (\<lambda>ex. Ev_generate_response (user ex) True) test_data"
    by auto
  from len assms(2) have ne: "evs \<noteq> []" "trs \<noteq> []" by auto
  from batch_evaluate_returns [OF ne(1) some] obtain eval_stats where
    be: "batch_evaluate (evaluator p) evs = Inr eval_stats"
    by blast
  from regenerate_total [OF assms(1), of test_data "lg @ new1"]
  obtain responses new2 where
    regen: "regenerate p test_data (lg @ new1) = Inr (responses, (lg @ new1) @ new2)"
    and rlen: "length responses = length test_data"
    and rsome: "list_all (\<lambda>r. r \<noteq> None) responses"
    and seconds: "responses = map (\<lambda>ex. turn_response p (user ex) False) test_data"
    and turns2: "filter is_turn new2 = map (\<lambda>ex. Ev_generate_response (user ex) False) test_data"
    by blast
  from rlen assms(2) have rne: "responses \<noteq> []" by auto
  from batch_analyze_returns [OF rne rsome] obtain trait_stats where
    ba: "batch_analyze (traits_analyzer p) responses = Inr trait_stats"
    by blast
  let ?result = "\<lparr>ds_evaluation = eval_stats, ds_traits = Some trait_stats,
                   num_examples = length test_data\<rparr>"
  have run: "evaluate_dataset p test_data lg = Inr (?result, lg @ (new1 @ new2))"
    using assms(1) loop be ne(2) regen ba by (simp add: evaluate_dataset_def)
  have turns: "filter is_turn (new1 @ new2)
        = map (\<lambda>ex. Ev_generate_response (user ex) True) test_data
          @ map (\<lambda>ex. Ev_generate_response (user ex) False) test_data"
    using turns1 turns2 by simp
  have regen': "regenerate p test_data (lg @ new1) = Inr (responses, lg @ (new1 @ new2))"
    using regen by simp
  show ?thesis
    apply (rule exI [of _ ?result])
    apply (rule exI [of _ "new1 @ new2"])
    apply (rule exI [of _ responses])
    apply (rule exI [of _ "lg @ new1"])
    apply (rule exI [of _ trait_stats])
    apply (rule exI [of _ evs])
    apply (rule exI [of _ trs])
    apply (rule exI [of _ eval_stats])
    using run turns regen' ba loop queries firsts be seconds
    apply simp
    done
qed

section \<open>Dataset evaluation\<close>

text \<open>
  Claim C9, as stated, fails: on a dataset of one admitted example the single-turn
  pipeline is invoked twice, once with details and once without.
\<close>

theorem evaluate_dataset_once_counterexample:
  "\<exists>result lg'.
     evaluate_dataset demo_pipeline [\<lparr>user = ''hello'', assistant = None\<rparr>] [] = Inr (result, lg')
   \<and> filter is_turn lg'
       = [Ev_generate_response ''hello'' True, Ev_generate_response ''hello'' False]
   \<and> length (filter is_turn lg') \<noteq> length [\<lparr>user = ''hello'', assistant = None\<rparr>]"
proof -
  have h1: "is_model_loaded demo_pipeline"
    by (simp add: demo_pipeline_def)
  have h2: "[\<lparr>user = ''hello'', assistant = None\<rparr>] \<noteq> []"
    by simp
  have adm: "fst (fst (check_input (safety_filter demo_pipeline) ''hello'' []))"
    by code_simp
  then have h3: "\<forall>ex \<in> set [\<lparr>user = ''hello'', assistant = None\<rparr>].
                   fst (fst (check_input (safety_filter demo_pipeline) (user ex) []))"
    by simp
  from evaluate_dataset_runs [OF h1 h2 h3, of "[]"]
  obtain result new where
    "evaluate_dataset demo_pipeline [\<lparr>user = ''hello'', assistant = None\<rparr>] []
       = Inr (result, new)"
    and "filter is_turn new
           = [Ev_generate_response ''hello'' True, Ev_generate_response ''hello'' False]"
    by auto
  then show ?thesis by simp
qed

text \<open>
  Claim C9, amended. On a non-empty dataset whose inputs are all admitted (the model
  being loaded), \<open>evaluate_dataset\<close> returns, and it invokes the single-turn pipeline
  once per example with details requested and then a second time per example without
  details, twice per example. The first loop collects one entry per example, holding
  the example's query and the response of its turn with details, and the evaluation
  statistics of the result are those of \<open>batch_evaluate\<close> over these entries. The
  second pass starts from the log the first loop left; its responses are those of the
  turns without details, and the trait statistics of the result are those of
  \<open>batch_analyze\<close> over them.
\<close>

theorem evaluate_dataset_generates_twice:
  assumes "is_model_loaded p" and "test_data \<noteq> []"
    and "\<forall>ex \<in> set test_data. fst (fst (check_input (safety_filter p) (user ex) []))"
  shows "\<exists>result new responses lg1 trait_stats evaluations all_traits eval_stats.
      evaluate_dataset p test_data lg = Inr (result, lg @ new)
    \<and> filter is_turn new
        = map (\<lambda>ex. Ev_generate_response (user ex) True) test_data
          @ map (\<lambda>ex. Ev_generate_response (user ex) False) test_data
    \<and> regenerate p test_data lg1 = Inr (responses, lg @ new)
    \<and> batch_analyze (traits_analyzer p) responses = Inr trait_stats
    \<and> ds_traits result = Some trait_stats
    \<and> num_examples result = length test_data
    \<and> dataset_loop p test_data [] [] lg = Inr (evaluations, all_traits, lg1)
    \<and> map e_query evaluations = map user test_data
    \<and> map e_response evaluations = map (\<lambda>ex. turn_response p (user ex) True) test_data
    \<and> batch_evaluate (evaluator p) evaluations = Inr eval_stats
    \<and> ds_evaluation result = eval_stats
    \<and> responses = map (\<lambda>ex. turn_response p (user ex) False) test_data"
  using assms by (rule evaluate_dataset_runs)


theorem evaluate_dataset_generates_twice_witness:
  "is_model_loaded demo_pipeline
   \<and> fst (fst (check_input (safety_filter demo_pipeline) ''hello'' []))
   \<and> fst (fst (check_input (safety_filter demo_pipeline) ''I feel sad'' []))
   \<and> turn_response demo_pipeline ''hello'' True
       = Some (safety_prefix @ ''I hear you, and you should rest.'')
   \<and> (\<exists>result new evaluations eval_stats.
        evaluate_dataset demo_pipeline
          [\<lparr>user = ''hello'', assistant = None\<rparr>, \<lparr>user = ''I feel sad'', assistant = None\<rparr>] []
          = Inr (result, new)
        \<and> filter is_turn new
            = [Ev_generate_response ''hello'' True, Ev_generate_response ''I feel sad'' True,
               Ev_generate_response ''hello'' False, Ev_generate_response ''I feel sad'' False]
        \<and> num_examples result = 2
        \<and> map e_query evaluations = [''hello'', ''I feel sad'']
        \<and> batch_evaluate (evaluator demo_pipeline) evaluations = Inr eval_stats
        \<and> ds_evaluation result = eval_stats)"
proof -
  let ?data = "[\<lparr>user = ''hello'', assistant = None\<rparr>, \<lparr>user = ''I feel sad'', assistant = None\<rparr>]"
  have h1: "is_model_loaded demo_pipeline"
    by (simp add: demo_pipeline_def)
  have h2: "?data \<noteq> []"
    by simp
  have a1: "fst (fst (check_input (safety_filter demo_pipeline) ''hello'' []))"
    and a2: "fst (fst (check_input (safety_filter demo_pipeline) ''I feel sad'' []))"
    by code_simp+
  have t: "turn_response demo_pipeline ''hello'' True
             = Some (safety_prefix @ ''I hear you, and you should rest.'')"
    by code_simp
  from a1 a2 have h3: "\<forall>ex \<in> set ?data.
      fst (fst (check_input (safety_filter demo_pipeline) (user ex) []))"
    by simp
  from evaluate_dataset_generates_twice [OF h1 h2 h3, of "[]"]
  obtain result new responses lg1 trait_stats evaluations all_traits eval_stats where
    r1: "evaluate_dataset demo_pipeline ?data [] = Inr (result, [] @ new)"
    and r2: "filter is_turn new
       = map (\<lambda>ex. Ev_generate_response (user ex) True) ?data
         @ map (\<lambda>ex. Ev_generate_response (user ex) False) ?data"
    and r3: "num_examples result = length ?data"
    and r4: "map e_query evaluations = map user ?data"
    and r5: "batch_evaluate (evaluator demo_pipeline) evaluations = Inr eval_stats"
    and r6: "ds_evaluation result = eval_stats"
    by blast
  have "evaluate_dataset demo_pipeline ?data [] = Inr (result, new)
        \<and> filter is_turn new
            = [Ev_generate_response ''hello'' True, Ev_generate_response ''I feel sad'' True,
               Ev_generate_response ''hello'' False, Ev_generate_response ''I feel sad'' False]
        \<and> num_examples result = 2
        \<and> map e_query evaluations = [''hello'', ''I feel sad'']
        \<and> batch_evaluate (evaluator demo_pipeline) evaluations = Inr eval_stats
        \<and> ds_evaluation result = eval_stats"
    using r1 r2 r3 r4 r5 r6 by simp
  then have "\<exists>result new evaluations eval_stats.
        evaluate_dataset demo_pipeline ?data [] = Inr (result, new)
        \<and> filter is_turn new
            = [Ev_generate_response ''hello'' True, Ev_generate_response ''I feel sad'' True,
               Ev_generate_response ''hello'' False, Ev_generate_response ''I feel sad'' False]
        \<and> num_examples result = 2
        \<and> map e_query evaluations = [''hello'', ''I feel sad'']
        \<and> batch_evaluate (evaluator demo_pipeline) evaluations = Inr eval_stats
        \<and> ds_evaluation result = eval_stats"
    by (intro exI [of _ result] exI [of _ new] exI [of _ evaluations] exI [of _ eval_stats])
  with h1 a1 a2 t show ?thesis
    by - (intro conjI; assumption)
qed

end
